theory Spec2Isabelle
  imports Complex_Main "HOL-Library.Sublist"
begin

section \<open>Episodic training notebook: the embedding\<close>

text \<open>
  The repository's source is one notebook, \<^verbatim>\<open>notebooks/episodic_training.ipynb\<close>. Its code
  cells are a linear script over collaborators (the dataset, the task sampler, the data
  loader, the classifier, the optimizer, the scheduler, the evaluation routine and the
  TensorBoard writer). The script is embedded as a state-passing program over a world that
  holds
  \<^item> the tensor storage (\<open>heap\<close>): the learnable parameters of the classifier live at one
    address, and every Python reference to them is that address;
  \<^item> the state the collaborators own (\<open>env\<close>): the three random generators, the two cuDNN
    flags, and everything else (gradients, prototypes, optimizer momentum, learning rate), left
    abstract;
  \<^item> the log of the calls the script makes to its collaborators, in order, each with its
    outcome (\<open>trace\<close>).
  What a collaborator computes is a parameter of the embedding (a record of functions); a
  collaborator either returns or raises. Python floats are read as real numbers.
\<close>

subsection \<open>Values\<close>

datatype error = StatisticsError | ZeroDivisionError | ValueError | Raised string

datatype rng_source = Numpy | Torch | Python_random

datatype split = Train | Val | Test

type_synonym addr = nat

text \<open>
  An episode is the 5-tuple the collation function delivers:
  \<^verbatim>\<open>(support_images, support_labels, query_images, query_labels, class_ids)\<close>.
  An image tensor of \<open>n\<close> images is a list of \<open>n\<close> images; a label tensor is a list of
  naturals.
\<close>

type_synonym 'i episode = "'i list \<times> nat list \<times> 'i list \<times> nat list \<times> nat list"

text \<open>\<^verbatim>\<open>TaskSampler(dataset, n_way=.., n_shot=.., n_query=.., n_tasks=..)\<close>\<close>

record task_sampler =
  sampler_dataset :: split
  sampler_n_way :: nat
  sampler_n_shot :: nat
  sampler_n_query :: nat
  sampler_n_tasks :: nat

text \<open>
  \<^verbatim>\<open>DataLoader(dataset, batch_sampler=.., num_workers=.., pin_memory=.., collate_fn=s.episodic_collate_fn)\<close>:
  the field \<open>collate_fn\<close> holds the sampler whose \<^verbatim>\<open>episodic_collate_fn\<close> is used.
\<close>

record data_loader =
  dataset :: split
  batch_sampler :: task_sampler
  num_workers :: nat
  pin_memory :: bool
  collate_fn :: task_sampler

text \<open>
  \<^verbatim>\<open>SGD(few_shot_classifier.parameters(), lr=.., momentum=.., weight_decay=..)\<close>: the optimizer
  holds a reference to the parameters it updates.
\<close>

record optimizer =
  params :: addr
  lr :: real
  momentum :: real
  weight_decay :: real

subsection \<open>Calls to collaborators and the trace\<close>

datatype 'i call =
    Seed rng_source nat
  | Cudnn_deterministic bool
  | Cudnn_benchmark bool
  | CUB split bool
  | TaskSampler task_sampler
  | DataLoader data_loader
  | Resnet12
  | PrototypicalNetworks addr
  | To_device string
  | SGD optimizer
  | MultiStepLR "nat list" real
  | SummaryWriter string
  | Print_epoch nat
  | Print_new_best
  | Print_accuracy real
  | Model_train
  | Model_eval
  | Iterate data_loader
  | Next_episode
  | Zero_grad
  | Process_support_set "'i list" "nat list"
  | Forward "'i list"
  | Cross_entropy_loss "real list list" "nat list"
  | Backward real
  | Optimizer_step
  | Loss_item
  | Mean "real list"
  | Set_postfix real
  | State_dict
  | Load_state_dict addr
  | Evaluate data_loader
  | Add_scalar string real nat
  | Scheduler_step

datatype 'i ret =
    RNone
  | RReal real
  | RScores "real list list"
  | RRef addr
  | REpisodes "'i episode list"

datatype 'i outcome = Returned "'i ret" | Raises error

type_synonym 'i event = "'i call \<times> 'i outcome"

record 'x env =
  rng_numpy :: nat
  rng_torch :: nat
  rng_python :: nat
  cudnn_deterministic :: bool
  cudnn_benchmark :: bool
  other :: 'x

record ('p, 'x, 'i) world =
  heap :: "addr \<Rightarrow> 'p"
  next_free :: addr
  env :: "'x env"
  trace :: "'i event list"

text \<open>
  The collaborators. Each function is given what the call can read and returns either an
  exception or its result with the collaborators' new state.
  \<^item> \<open>c_setup\<close>: calls that do not read the classifier's parameters (constructors, device
    transfer, printing, logging, the scheduler);
  \<^item> \<open>c_model\<close>: calls that read the parameters and change only hidden state
    (\<^verbatim>\<open>model.train()\<close>, \<^verbatim>\<open>model.eval()\<close>, \<^verbatim>\<open>optimizer.zero_grad()\<close>,
    \<^verbatim>\<open>model.process_support_set\<close>, \<^verbatim>\<open>loss.backward()\<close>);
  \<^item> \<open>c_resnet12\<close>: the initial parameter values of a new backbone;
  \<^item> \<open>c_forward\<close>: the per-class scores of the query images;
  \<^item> \<open>c_loss\<close>: \<^verbatim>\<open>nn.CrossEntropyLoss()\<close>;
  \<^item> \<open>c_step\<close>: the parameter values after one \<^verbatim>\<open>optimizer.step()\<close>;
  \<^item> \<open>c_batches\<close>: one pass over a loader: the batches of (image, class) items its batch
    sampler draws, and the exception that ends the pass early, if any.
\<close>

record ('p, 'x, 'i) collaborators =
  c_setup :: "'i call \<Rightarrow> 'x env \<Rightarrow> error + unit \<times> 'x env"
  c_model :: "'i call \<Rightarrow> 'p \<Rightarrow> 'x env \<Rightarrow> error + unit \<times> 'x env"
  c_resnet12 :: "'x env \<Rightarrow> error + 'p \<times> 'x env"
  c_forward :: "'p \<Rightarrow> 'i list \<Rightarrow> 'x env \<Rightarrow> error + real list list \<times> 'x env"
  c_loss :: "real list list \<Rightarrow> nat list \<Rightarrow> 'x env \<Rightarrow> error + real \<times> 'x env"
  c_step :: "'p \<Rightarrow> 'x env \<Rightarrow> error + 'p \<times> 'x env"
  c_batches :: "data_loader \<Rightarrow> 'x env \<Rightarrow> (('i \<times> nat) list list \<times> error option) \<times> 'x env"

subsection \<open>Programs\<close>

text \<open>
  A program takes the world and returns an exception or a value, with the world it leaves.
  The script has no \<^verbatim>\<open>try\<close>; sequencing stops at the first exception.
\<close>

type_synonym ('a, 'w) prog = "'w \<Rightarrow> (error + 'a) \<times> 'w"

definition py_return :: "'a \<Rightarrow> ('a, 'w) prog" where
  "py_return a w = (Inr a, w)"

definition py_bind :: "('a, 'w) prog \<Rightarrow> ('a \<Rightarrow> ('b, 'w) prog) \<Rightarrow> ('b, 'w) prog" where
  "py_bind m f w = (case m w of (Inl e, w') \<Rightarrow> (Inl e, w') | (Inr a, w') \<Rightarrow> f a w')"

definition py_raise :: "error \<Rightarrow> ('a, 'w) prog" where
  "py_raise e w = (Inl e, w)"

text \<open>
  A call to a collaborator: the body runs, and the call is logged with its outcome. What the
  body itself logged is internal to the collaborator and is dropped.
\<close>

definition extcall ::
  "'i call \<Rightarrow> ('a \<Rightarrow> 'i ret) \<Rightarrow> ('a, ('p, 'x, 'i) world) prog \<Rightarrow> ('a, ('p, 'x, 'i) world) prog" where
  "extcall c shw m w =
     (case m w of
        (Inl e, w') \<Rightarrow> (Inl e, w'\<lparr>trace := trace w @ [(c, Raises e)]\<rparr>)
      | (Inr a, w') \<Rightarrow> (Inr a, w'\<lparr>trace := trace w @ [(c, Returned (shw a))]\<rparr>))"

definition on_env ::
  "('x env \<Rightarrow> error + 'a \<times> 'x env) \<Rightarrow> ('a, ('p, 'x, 'i) world) prog" where
  "on_env g w = (case g (env w) of Inl e \<Rightarrow> (Inl e, w) | Inr (a, x) \<Rightarrow> (Inr a, w\<lparr>env := x\<rparr>))"

definition setup_call ::
  "('p, 'x, 'i) collaborators \<Rightarrow> 'i call \<Rightarrow> (unit, ('p, 'x, 'i) world) prog" where
  "setup_call ext c = extcall c (\<lambda>_. RNone) (on_env (c_setup ext c))"

definition model_call ::
  "('p, 'x, 'i) collaborators \<Rightarrow> 'i call \<Rightarrow> addr \<Rightarrow> (unit, ('p, 'x, 'i) world) prog" where
  "model_call ext c a = extcall c (\<lambda>_. RNone) (\<lambda>w. on_env (c_model ext c (heap w a)) w)"

subsection \<open>The standard library: \<open>statistics.mean\<close>\<close>

definition mean :: "real list \<Rightarrow> error + real" where
  "mean xs = (if xs = [] then Inl StatisticsError else Inr (sum_list xs / real (length xs)))"

definition mean_call :: "real list \<Rightarrow> (real, ('p, 'x, 'i) world) prog" where
  "mean_call xs = extcall (Mean xs) RReal (\<lambda>w. (mean xs, w))"

subsection \<open>Calls the notebook makes\<close>

text \<open>
  \<^verbatim>\<open>np.random.seed(s)\<close>, \<^verbatim>\<open>torch.manual_seed(s)\<close>, \<^verbatim>\<open>random.seed(s)\<close>: the state of a generator
  right after seeding is a function of the seed alone; it is identified with the seed.
\<close>

definition seed :: "rng_source \<Rightarrow> nat \<Rightarrow> (unit, ('p, 'x, 'i) world) prog" where
  "seed src s =
     extcall (Seed src s) (\<lambda>_. RNone)
       (\<lambda>w. (Inr (), w\<lparr>env := (case src of
                                   Numpy \<Rightarrow> (env w)\<lparr>rng_numpy := s\<rparr>
                                 | Torch \<Rightarrow> (env w)\<lparr>rng_torch := s\<rparr>
                                 | Python_random \<Rightarrow> (env w)\<lparr>rng_python := s\<rparr>)\<rparr>))"

definition set_cudnn_deterministic :: "bool \<Rightarrow> (unit, ('p, 'x, 'i) world) prog" where
  "set_cudnn_deterministic b =
     extcall (Cudnn_deterministic b) (\<lambda>_. RNone)
       (\<lambda>w. (Inr (), w\<lparr>env := (env w)\<lparr>cudnn_deterministic := b\<rparr>\<rparr>))"

definition set_cudnn_benchmark :: "bool \<Rightarrow> (unit, ('p, 'x, 'i) world) prog" where
  "set_cudnn_benchmark b =
     extcall (Cudnn_benchmark b) (\<lambda>_. RNone)
       (\<lambda>w. (Inr (), w\<lparr>env := (env w)\<lparr>cudnn_benchmark := b\<rparr>\<rparr>))"

text \<open>\<^verbatim>\<open>resnet12()\<close>: a new network; its parameters are stored at a fresh address.\<close>

definition resnet12 :: "('p, 'x, 'i) collaborators \<Rightarrow> (addr, ('p, 'x, 'i) world) prog" where
  "resnet12 ext =
     extcall Resnet12 RRef
       (\<lambda>w. case c_resnet12 ext (env w) of
               Inl e \<Rightarrow> (Inl e, w)
             | Inr (p, x) \<Rightarrow>
                 (Inr (next_free w),
                  w\<lparr>heap := (heap w)(next_free w := p), next_free := Suc (next_free w), env := x\<rparr>))"

text \<open>
  \<^verbatim>\<open>PrototypicalNetworks(backbone)\<close> wraps the backbone: the classifier's learnable parameters
  are the backbone's, at the same address.
\<close>

definition prototypical_networks ::
  "('p, 'x, 'i) collaborators \<Rightarrow> addr \<Rightarrow> (addr, ('p, 'x, 'i) world) prog" where
  "prototypical_networks ext backbone =
     extcall (PrototypicalNetworks backbone) RRef
       (py_bind (on_env (c_setup ext (PrototypicalNetworks backbone))) (\<lambda>_. py_return backbone))"

definition to_device :: "('p, 'x, 'i) collaborators \<Rightarrow> string \<Rightarrow> (unit, ('p, 'x, 'i) world) prog" where
  "to_device ext device = setup_call ext (To_device device)"

definition zero_grad :: "('p, 'x, 'i) collaborators \<Rightarrow> optimizer \<Rightarrow> (unit, ('p, 'x, 'i) world) prog" where
  "zero_grad ext optimizer = model_call ext Zero_grad (params optimizer)"

definition process_support_set ::
  "('p, 'x, 'i) collaborators \<Rightarrow> addr \<Rightarrow> 'i list \<Rightarrow> nat list \<Rightarrow> (unit, ('p, 'x, 'i) world) prog" where
  "process_support_set ext model support_images support_labels =
     model_call ext (Process_support_set support_images support_labels) model"

definition forward ::
  "('p, 'x, 'i) collaborators \<Rightarrow> addr \<Rightarrow> 'i list \<Rightarrow> (real list list, ('p, 'x, 'i) world) prog" where
  "forward ext model query_images =
     extcall (Forward query_images) RScores
       (\<lambda>w. on_env (c_forward ext (heap w model) query_images) w)"

definition LOSS_FUNCTION ::
  "('p, 'x, 'i) collaborators \<Rightarrow> real list list \<Rightarrow> nat list \<Rightarrow> (real, ('p, 'x, 'i) world) prog" where
  "LOSS_FUNCTION ext scores labels =
     extcall (Cross_entropy_loss scores labels) RReal (on_env (c_loss ext scores labels))"

definition backward :: "('p, 'x, 'i) collaborators \<Rightarrow> addr \<Rightarrow> real \<Rightarrow> (unit, ('p, 'x, 'i) world) prog" where
  "backward ext model loss = model_call ext (Backward loss) model"

text \<open>
  \<^verbatim>\<open>optimizer.step()\<close> updates the parameters in place: the new values are written to the
  address the optimizer holds.
\<close>

definition optimizer_step ::
  "('p, 'x, 'i) collaborators \<Rightarrow> optimizer \<Rightarrow> (unit, ('p, 'x, 'i) world) prog" where
  "optimizer_step ext optimizer =
     extcall Optimizer_step (\<lambda>_. RNone)
       (\<lambda>w. case c_step ext (heap w (params optimizer)) (env w) of
               Inl e \<Rightarrow> (Inl e, w)
             | Inr (p, x) \<Rightarrow> (Inr (), w\<lparr>heap := (heap w)(params optimizer := p), env := x\<rparr>))"

definition loss_item :: "('p, 'x, 'i) collaborators \<Rightarrow> real \<Rightarrow> (real, ('p, 'x, 'i) world) prog" where
  "loss_item ext loss =
     extcall Loss_item RReal (py_bind (on_env (c_setup ext Loss_item)) (\<lambda>_. py_return loss))"

definition set_postfix :: "('p, 'x, 'i) collaborators \<Rightarrow> real \<Rightarrow> (unit, ('p, 'x, 'i) world) prog" where
  "set_postfix ext v = setup_call ext (Set_postfix v)"

text \<open>
  \<^verbatim>\<open>model.state_dict()\<close> returns a dictionary of tensors that share their storage with the
  model's parameters: PyTorch detaches each parameter, it does not copy it, and documents the
  result as holding references to the module's parameters and buffers. The result is therefore
  a reference to the same address. \<^verbatim>\<open>model.load_state_dict(state)\<close> copies the referenced
  values into the model's parameters. Neither raises here: the state dictionary loaded is one
  the same classifier produced.
\<close>

definition state_dict :: "addr \<Rightarrow> (addr, ('p, 'x, 'i) world) prog" where
  "state_dict model = extcall State_dict RRef (py_return model)"

definition load_state_dict :: "addr \<Rightarrow> addr \<Rightarrow> (unit, ('p, 'x, 'i) world) prog" where
  "load_state_dict model state =
     extcall (Load_state_dict state) (\<lambda>_. RNone)
       (\<lambda>w. (Inr (), w\<lparr>heap := (heap w)(model := heap w state)\<rparr>))"

definition add_scalar ::
  "('p, 'x, 'i) collaborators \<Rightarrow> string \<Rightarrow> real \<Rightarrow> nat \<Rightarrow> (unit, ('p, 'x, 'i) world) prog" where
  "add_scalar ext tag v step = setup_call ext (Add_scalar tag v step)"

definition scheduler_step :: "('p, 'x, 'i) collaborators \<Rightarrow> (unit, ('p, 'x, 'i) world) prog" where
  "scheduler_step ext = setup_call ext Scheduler_step"

subsection \<open>The task sampler's collation and a pass over a loader\<close>

fun index_of :: "nat \<Rightarrow> nat list \<Rightarrow> nat" where
  "index_of x [] = 0"
| "index_of x (y # ys) = (if x = y then 0 else Suc (index_of x ys))"

text \<open>
  Modelled from the spec: \<^verbatim>\<open>TaskSampler.episodic_collate_fn\<close> (package \<^verbatim>\<open>easyfsl.samplers\<close>,
  not among the sources). The spec: an episode is a tuple of (support images, support labels,
  query images, query labels, class-identifier mapping) with fixed shapes determined by
  (N classes, K shots, Q queries) chosen once per sampler; K is the number of labeled examples
  per class and Q the number of query examples per class. The batch holds, class after class,
  the K + Q items drawn for each of the N classes; the first K of a class are its support
  examples and the other Q its queries. A label is the position of the item's class in the
  class-identifier mapping. A batch of any other size has no such shape and is refused.
\<close>

definition episodic_collate_fn :: "task_sampler \<Rightarrow> ('i \<times> nat) list \<Rightarrow> error + 'i episode" where
  "episodic_collate_fn s input_data =
     (let per_class = sampler_n_shot s + sampler_n_query s;
          true_class_ids = remdups (map snd input_data);
          rows = map (\<lambda>c. take per_class (drop (c * per_class) input_data)) [0..<sampler_n_way s];
          support = concat (map (take (sampler_n_shot s)) rows);
          query = concat (map (drop (sampler_n_shot s)) rows)
      in if length input_data \<noteq> sampler_n_way s * per_class then Inl ValueError
         else Inr (map fst support,
                   map (\<lambda>x. index_of (snd x) true_class_ids) support,
                   map fst query,
                   map (\<lambda>x. index_of (snd x) true_class_ids) query,
                   true_class_ids))"

text \<open>
  One pass over a \<^verbatim>\<open>DataLoader\<close>: every batch the batch sampler draws goes through the
  collation function; the pass delivers the episodes collated before the first exception.
\<close>

fun collate_all ::
  "task_sampler \<Rightarrow> ('i \<times> nat) list list \<Rightarrow> error option \<Rightarrow> 'i episode list \<times> error option" where
  "collate_all s [] stop = ([], stop)"
| "collate_all s (b # bs) stop =
     (case episodic_collate_fn s b of
        Inl e \<Rightarrow> ([], Some e)
      | Inr ep \<Rightarrow> (case collate_all s bs stop of (eps, st) \<Rightarrow> (ep # eps, st)))"

text \<open>
  \<^verbatim>\<open>tqdm(enumerate(data_loader), total=len(data_loader), desc=..)\<close>: the episodes of the pass, and
  the exception, if any, that the iterator raises after the last episode it delivers.
\<close>

definition iterate ::
  "('p, 'x, 'i) collaborators \<Rightarrow> data_loader \<Rightarrow>
     ('i episode list \<times> error option, ('p, 'x, 'i) world) prog" where
  "iterate ext loader =
     extcall (Iterate loader) (\<lambda>r. REpisodes (fst r))
       (\<lambda>w. case c_batches ext loader (env w) of
               ((batches, stop), x) \<Rightarrow>
                 (Inr (collate_all (collate_fn loader) batches stop), w\<lparr>env := x\<rparr>))"

definition end_of_iteration :: "error option \<Rightarrow> (unit, ('p, 'x, 'i) world) prog" where
  "end_of_iteration stop =
     (case stop of None \<Rightarrow> py_return () | Some e \<Rightarrow> extcall Next_episode (\<lambda>_. RNone) (py_raise e))"

subsection \<open>\<open>training_epoch\<close>\<close>

definition DEVICE :: string where
  "DEVICE = ''cuda''"

text \<open>
  The body of the \<^verbatim>\<open>for\<close> loop of \<^verbatim>\<open>training_epoch\<close>:
  \<^verbatim>\<open>
      optimizer.zero_grad()
      model.process_support_set(support_images.to(DEVICE), support_labels.to(DEVICE))
      classification_scores = model(query_images.to(DEVICE))
      loss = LOSS_FUNCTION(classification_scores, query_labels.to(DEVICE))
      loss.backward()
      optimizer.step()
      all_loss.append(loss.item())
      tqdm_train.set_postfix(loss=mean(all_loss))
  \<close>
\<close>

definition training_step ::
  "('p, 'x, 'i) collaborators \<Rightarrow> addr \<Rightarrow> optimizer \<Rightarrow> 'i episode \<Rightarrow> real list \<Rightarrow>
     (real list, ('p, 'x, 'i) world) prog" where
  "training_step ext model optimizer episode all_loss =
     (case episode of (support_images, support_labels, query_images, query_labels, _) \<Rightarrow>
        py_bind (zero_grad ext optimizer) (\<lambda>_.
        py_bind (to_device ext DEVICE) (\<lambda>_.
        py_bind (to_device ext DEVICE) (\<lambda>_.
        py_bind (process_support_set ext model support_images support_labels) (\<lambda>_.
        py_bind (to_device ext DEVICE) (\<lambda>_.
        py_bind (forward ext model query_images) (\<lambda>classification_scores.
        py_bind (to_device ext DEVICE) (\<lambda>_.
        py_bind (LOSS_FUNCTION ext classification_scores query_labels) (\<lambda>loss.
        py_bind (backward ext model loss) (\<lambda>_.
        py_bind (optimizer_step ext optimizer) (\<lambda>_.
        py_bind (loss_item ext loss) (\<lambda>item.
        py_bind (mean_call (all_loss @ [item])) (\<lambda>m.
        py_bind (set_postfix ext m) (\<lambda>_.
        py_return (all_loss @ [item])))))))))))))))"

fun training_episodes ::
  "('p, 'x, 'i) collaborators \<Rightarrow> addr \<Rightarrow> optimizer \<Rightarrow> 'i episode list \<Rightarrow> real list \<Rightarrow>
     (real list, ('p, 'x, 'i) world) prog" where
  "training_episodes ext model optimizer [] all_loss = py_return all_loss"
| "training_episodes ext model optimizer (episode # episodes) all_loss =
     py_bind (training_step ext model optimizer episode all_loss)
       (training_episodes ext model optimizer episodes)"

text \<open>
  \<^verbatim>\<open>
  def training_epoch(model, data_loader, optimizer):
      all_loss = []
      model.train()
      with tqdm(enumerate(data_loader), total=len(data_loader), desc="Training") as tqdm_train:
          for episode_index, (support_images, support_labels, query_images, query_labels, _) in tqdm_train:
              ...
      return mean(all_loss)
  \<close>
\<close>

definition training_epoch ::
  "('p, 'x, 'i) collaborators \<Rightarrow> addr \<Rightarrow> data_loader \<Rightarrow> optimizer \<Rightarrow> (real, ('p, 'x, 'i) world) prog" where
  "training_epoch ext model loader optimizer =
     py_bind (model_call ext Model_train model) (\<lambda>_.
     py_bind (iterate ext loader) (\<lambda>(episodes, stop).
     py_bind (training_episodes ext model optimizer episodes []) (\<lambda>all_loss.
     py_bind (end_of_iteration stop) (\<lambda>_.
     mean_call all_loss))))"

subsection \<open>\<open>evaluate\<close>\<close>

fun argmax_from :: "nat \<Rightarrow> real \<Rightarrow> nat \<Rightarrow> real list \<Rightarrow> nat" where
  "argmax_from best_i best_v i [] = best_i"
| "argmax_from best_i best_v i (x # xs) =
     (if best_v < x then argmax_from i x (Suc i) xs else argmax_from best_i best_v (Suc i) xs)"

definition argmax :: "real list \<Rightarrow> nat" where
  "argmax xs = (case xs of [] \<Rightarrow> 0 | x # ys \<Rightarrow> argmax_from 0 x 1 ys)"

text \<open>
  Modelled from the spec: \<^verbatim>\<open>evaluate\<close> (package \<^verbatim>\<open>easyfsl.methods.utils\<close>, not among the
  sources). The spec: an evaluation call taking (model, episode loader, device, optional
  progress label) that computes the aggregate accuracy over the episode loader; for each
  episode the classifier consumes the support set and then classifies the queries from the
  per-class scores of the forward call. A query is classified correctly when the class with
  the highest score is its label; the accuracy is the number of correctly classified queries
  over the number of queries of the whole pass.
\<close>

definition evaluate_on_one_task ::
  "('p, 'x, 'i) collaborators \<Rightarrow> addr \<Rightarrow> 'i episode \<Rightarrow> (nat \<times> nat, ('p, 'x, 'i) world) prog" where
  "evaluate_on_one_task ext model episode =
     (case episode of (support_images, support_labels, query_images, query_labels, _) \<Rightarrow>
        py_bind (process_support_set ext model support_images support_labels) (\<lambda>_.
        py_bind (forward ext model query_images) (\<lambda>scores.
        py_return (length (filter (\<lambda>(s, l). argmax s = l) (zip scores query_labels)),
                   length query_labels))))"

fun evaluate_episodes ::
  "('p, 'x, 'i) collaborators \<Rightarrow> addr \<Rightarrow> 'i episode list \<Rightarrow> nat \<Rightarrow> nat \<Rightarrow>
     (nat \<times> nat, ('p, 'x, 'i) world) prog" where
  "evaluate_episodes ext model [] correct_predictions total_predictions = py_return (correct_predictions, total_predictions)"
| "evaluate_episodes ext model (episode # episodes) correct_predictions total_predictions =
     py_bind (evaluate_on_one_task ext model episode) (\<lambda>(c, t).
       evaluate_episodes ext model episodes (correct_predictions + c) (total_predictions + t))"

definition evaluate ::
  "('p, 'x, 'i) collaborators \<Rightarrow> addr \<Rightarrow> data_loader \<Rightarrow> (real, ('p, 'x, 'i) world) prog" where
  "evaluate ext model loader =
     extcall (Evaluate loader) RReal
       (py_bind (model_call ext Model_eval model) (\<lambda>_.
        py_bind (iterate ext loader) (\<lambda>(episodes, stop).
        py_bind (evaluate_episodes ext model episodes 0 0) (\<lambda>(correct_predictions, total_predictions).
        py_bind (end_of_iteration stop) (\<lambda>_.
        if total_predictions = 0 then py_raise ZeroDivisionError
        else py_return (real correct_predictions / real total_predictions))))))"

subsection \<open>The notebook's cells\<close>

text \<open>
  \<^verbatim>\<open>
  random_seed = 0
  n_way = 5; n_shot = 5; n_query = 10
  DEVICE = "cuda"; n_workers = 12
  n_tasks_per_epoch = 500; n_validation_tasks = 100; n_test_tasks = 1000
  n_epochs = 200; scheduler_milestones = [120, 160]; scheduler_gamma = 0.1
  learning_rate = 1e-2; tb_logs_dir = Path(".")
  \<close>
\<close>

definition random_seed :: nat where "random_seed = 0"
definition n_way :: nat where "n_way = 5"
definition n_shot :: nat where "n_shot = 5"
definition n_query :: nat where "n_query = 10"
definition n_workers :: nat where "n_workers = 12"
definition n_tasks_per_epoch :: nat where "n_tasks_per_epoch = 500"
definition n_validation_tasks :: nat where "n_validation_tasks = 100"
definition n_test_tasks :: nat where "n_test_tasks = 1000"
definition n_epochs :: nat where "n_epochs = 200"
definition scheduler_milestones :: "nat list" where "scheduler_milestones = [120, 160]"
definition scheduler_gamma :: real where "scheduler_gamma = 1 / 10"
definition learning_rate :: real where "learning_rate = 1 / 100"
definition tb_logs_dir :: string where "tb_logs_dir = ''.''"

definition train_sampler :: task_sampler where
  "train_sampler = \<lparr>sampler_dataset = Train, sampler_n_way = n_way, sampler_n_shot = n_shot,
                     sampler_n_query = n_query, sampler_n_tasks = n_tasks_per_epoch\<rparr>"

definition val_sampler :: task_sampler where
  "val_sampler = \<lparr>sampler_dataset = Val, sampler_n_way = n_way, sampler_n_shot = n_shot,
                   sampler_n_query = n_query, sampler_n_tasks = n_validation_tasks\<rparr>"

definition test_sampler :: task_sampler where
  "test_sampler = \<lparr>sampler_dataset = Test, sampler_n_way = n_way, sampler_n_shot = n_shot,
                    sampler_n_query = n_query, sampler_n_tasks = n_test_tasks\<rparr>"

definition train_loader :: data_loader where
  "train_loader = \<lparr>dataset = Train, batch_sampler = train_sampler, num_workers = n_workers,
                    pin_memory = True, collate_fn = train_sampler\<rparr>"

definition val_loader :: data_loader where
  "val_loader = \<lparr>dataset = Val, batch_sampler = val_sampler, num_workers = n_workers,
                  pin_memory = True, collate_fn = val_sampler\<rparr>"

definition test_loader :: data_loader where
  "test_loader = \<lparr>dataset = Test, batch_sampler = test_sampler, num_workers = n_workers,
                   pin_memory = True, collate_fn = test_sampler\<rparr>"

text \<open>
  Cell 4:
  \<^verbatim>\<open>
  np.random.seed(random_seed)
  torch.manual_seed(random_seed)
  random.seed(random_seed)
  torch.backends.cudnn.deterministic = True
  torch.backends.cudnn.benchmark = False
  \<close>
\<close>

definition set_seeds :: "(unit, ('p, 'x, 'i) world) prog" where
  "set_seeds =
     py_bind (seed Numpy random_seed) (\<lambda>_.
     py_bind (seed Torch random_seed) (\<lambda>_.
     py_bind (seed Python_random random_seed) (\<lambda>_.
     py_bind (set_cudnn_deterministic True) (\<lambda>_.
     set_cudnn_benchmark False))))"

text \<open>Cell 8: the training and validation sets, their samplers and their loaders.\<close>

definition build_loaders :: "('p, 'x, 'i) collaborators \<Rightarrow> (unit, ('p, 'x, 'i) world) prog" where
  "build_loaders ext =
     py_bind (setup_call ext (CUB Train True)) (\<lambda>_.
     py_bind (setup_call ext (CUB Val False)) (\<lambda>_.
     py_bind (setup_call ext (TaskSampler train_sampler)) (\<lambda>_.
     py_bind (setup_call ext (TaskSampler val_sampler)) (\<lambda>_.
     py_bind (setup_call ext (DataLoader train_loader)) (\<lambda>_.
     setup_call ext (DataLoader val_loader))))))"

text \<open>
  Cell 10:
  \<^verbatim>\<open>
  convolutional_network = resnet12()
  few_shot_classifier = PrototypicalNetworks(convolutional_network).to(DEVICE)
  \<close>
\<close>

definition build_classifier :: "('p, 'x, 'i) collaborators \<Rightarrow> (addr, ('p, 'x, 'i) world) prog" where
  "build_classifier ext =
     py_bind (resnet12 ext) (\<lambda>convolutional_network.
     py_bind (prototypical_networks ext convolutional_network) (\<lambda>few_shot_classifier.
     py_bind (to_device ext DEVICE) (\<lambda>_.
     py_return few_shot_classifier)))"

text \<open>Cell 12: the optimizer over the classifier's parameters, the scheduler, the writer.\<close>

definition build_training_helpers ::
  "('p, 'x, 'i) collaborators \<Rightarrow> addr \<Rightarrow> (optimizer, ('p, 'x, 'i) world) prog" where
  "build_training_helpers ext few_shot_classifier =
     (let train_optimizer = \<lparr>params = few_shot_classifier, lr = learning_rate,
                               momentum = 9 / 10, weight_decay = 5 / 10000\<rparr>
      in py_bind (setup_call ext (SGD train_optimizer)) (\<lambda>_.
         py_bind (setup_call ext (MultiStepLR scheduler_milestones scheduler_gamma)) (\<lambda>_.
         py_bind (setup_call ext (SummaryWriter tb_logs_dir)) (\<lambda>_.
         py_return train_optimizer))))"

text \<open>
  The notebook's variables that the training loop assigns. \<open>None\<close>: not assigned yet.
\<close>

record notebook_vars =
  best_state :: addr
  best_validation_accuracy :: real
  average_loss :: "real option"
  validation_accuracy :: "real option"

text \<open>
  The body of the loop of cell 16:
  \<^verbatim>\<open>
      print(f"Epoch {epoch}")
      average_loss = training_epoch(few_shot_classifier, train_loader, train_optimizer)
      validation_accuracy = evaluate(
          few_shot_classifier, val_loader, device=DEVICE, tqdm_prefix="Validation")
      if validation_accuracy > best_validation_accuracy:
          best_validation_accuracy = validation_accuracy
          best_state = few_shot_classifier.state_dict()
          print("Ding ding ding! We found a new best model!")
      tb_writer.add_scalar("Train/loss", average_loss, epoch)
      tb_writer.add_scalar("Val/acc", validation_accuracy, epoch)
      train_scheduler.step()
  \<close>
\<close>

definition epoch_body ::
  "('p, 'x, 'i) collaborators \<Rightarrow> addr \<Rightarrow> optimizer \<Rightarrow> nat \<Rightarrow> notebook_vars \<Rightarrow>
     (notebook_vars, ('p, 'x, 'i) world) prog" where
  "epoch_body ext few_shot_classifier train_optimizer epoch vars =
     py_bind (setup_call ext (Print_epoch epoch)) (\<lambda>_.
     py_bind (training_epoch ext few_shot_classifier train_loader train_optimizer) (\<lambda>avg.
     py_bind (evaluate ext few_shot_classifier val_loader) (\<lambda>acc.
     py_bind (if best_validation_accuracy vars < acc
              then py_bind (state_dict few_shot_classifier) (\<lambda>state.
                   py_bind (setup_call ext Print_new_best) (\<lambda>_.
                   py_return (vars\<lparr>best_validation_accuracy := acc, best_state := state\<rparr>)))
              else py_return vars) (\<lambda>vars'.
     py_bind (add_scalar ext ''Train/loss'' avg epoch) (\<lambda>_.
     py_bind (add_scalar ext ''Val/acc'' acc epoch) (\<lambda>_.
     py_bind (scheduler_step ext) (\<lambda>_.
     py_return (vars'\<lparr>average_loss := Some avg, validation_accuracy := Some acc\<rparr>))))))))"

fun training_loop ::
  "('p, 'x, 'i) collaborators \<Rightarrow> addr \<Rightarrow> optimizer \<Rightarrow> nat list \<Rightarrow> notebook_vars \<Rightarrow>
     (notebook_vars, ('p, 'x, 'i) world) prog" where
  "training_loop ext few_shot_classifier train_optimizer [] vars = py_return vars"
| "training_loop ext few_shot_classifier train_optimizer (epoch # epochs) vars =
     py_bind (epoch_body ext few_shot_classifier train_optimizer epoch vars)
       (training_loop ext few_shot_classifier train_optimizer epochs)"

text \<open>
  Cell 16, with the number of epochs as a parameter (the notebook runs it with \<open>n_epochs\<close>):
  \<^verbatim>\<open>
  best_state = few_shot_classifier.state_dict()
  best_validation_accuracy = 0.0
  for epoch in range(n_epochs):
      ...
  \<close>
\<close>

definition train ::
  "('p, 'x, 'i) collaborators \<Rightarrow> addr \<Rightarrow> optimizer \<Rightarrow> nat \<Rightarrow>
     (notebook_vars, ('p, 'x, 'i) world) prog" where
  "train ext few_shot_classifier train_optimizer n =
     py_bind (state_dict few_shot_classifier) (\<lambda>state.
     training_loop ext few_shot_classifier train_optimizer [0..<n]
       \<lparr>best_state = state, best_validation_accuracy = 0,
        average_loss = None, validation_accuracy = None\<rparr>)"

text \<open>Cell 18: \<^verbatim>\<open>few_shot_classifier.load_state_dict(best_state)\<close>\<close>

definition restore_best :: "addr \<Rightarrow> notebook_vars \<Rightarrow> (unit, ('p, 'x, 'i) world) prog" where
  "restore_best few_shot_classifier vars = load_state_dict few_shot_classifier (best_state vars)"

text \<open>Cell 20: the test set, its sampler and its loader.\<close>

definition build_test_loader :: "('p, 'x, 'i) collaborators \<Rightarrow> (unit, ('p, 'x, 'i) world) prog" where
  "build_test_loader ext =
     py_bind (setup_call ext (CUB Test False)) (\<lambda>_.
     py_bind (setup_call ext (TaskSampler test_sampler)) (\<lambda>_.
     setup_call ext (DataLoader test_loader)))"

text \<open>
  Cell 22:
  \<^verbatim>\<open>
  accuracy = evaluate(few_shot_classifier, test_loader, device=DEVICE)
  print(f"Average accuracy : {(100 * accuracy):.2f} %")
  \<close>
\<close>

definition test :: "('p, 'x, 'i) collaborators \<Rightarrow> addr \<Rightarrow> (real, ('p, 'x, 'i) world) prog" where
  "test ext few_shot_classifier =
     py_bind (evaluate ext few_shot_classifier test_loader) (\<lambda>accuracy.
     py_bind (setup_call ext (Print_accuracy (100 * accuracy))) (\<lambda>_.
     py_return accuracy))"

text \<open>The cells before the training loop, the training loop, and the cells after it.\<close>

definition prepare :: "('p, 'x, 'i) collaborators \<Rightarrow> (addr \<times> optimizer, ('p, 'x, 'i) world) prog" where
  "prepare ext =
     py_bind set_seeds (\<lambda>_.
     py_bind (build_loaders ext) (\<lambda>_.
     py_bind (build_classifier ext) (\<lambda>few_shot_classifier.
     py_bind (build_training_helpers ext few_shot_classifier) (\<lambda>train_optimizer.
     py_return (few_shot_classifier, train_optimizer)))))"

definition finish ::
  "('p, 'x, 'i) collaborators \<Rightarrow> addr \<Rightarrow> notebook_vars \<Rightarrow> (real, ('p, 'x, 'i) world) prog" where
  "finish ext few_shot_classifier vars =
     py_bind (restore_best few_shot_classifier vars) (\<lambda>_.
     py_bind (build_test_loader ext) (\<lambda>_.
     test ext few_shot_classifier))"

definition notebook ::
  "('p, 'x, 'i) collaborators \<Rightarrow> (notebook_vars \<times> real, ('p, 'x, 'i) world) prog" where
  "notebook ext =
     py_bind (prepare ext) (\<lambda>(few_shot_classifier, train_optimizer).
     py_bind (train ext few_shot_classifier train_optimizer n_epochs) (\<lambda>vars.
     py_bind (finish ext few_shot_classifier vars) (\<lambda>accuracy.
     py_return (vars, accuracy))))"

subsection \<open>Reading a trace\<close>

text \<open>The events a run appended to the trace it started with.\<close>

definition emitted :: "('p, 'x, 'i) world \<Rightarrow> ('p, 'x, 'i) world \<Rightarrow> 'i event list" where
  "emitted w w' = drop (length (trace w)) (trace w')"

definition optimizer_steps :: "'i event list \<Rightarrow> nat" where
  "optimizer_steps evs = length (filter (\<lambda>ev. fst ev = Optimizer_step) evs)"

text \<open>The values \<^verbatim>\<open>loss.item()\<close> returned, in order.\<close>

definition loss_items :: "'i event list \<Rightarrow> real list" where
  "loss_items evs =
     concat (map (\<lambda>ev. case ev of (Loss_item, Returned (RReal l)) \<Rightarrow> [l] | _ \<Rightarrow> []) evs)"

text \<open>
  The calls of one training step on an episode, when every call returns: \<open>scores\<close> is what the
  forward call returned, \<open>loss\<close> what the loss function returned, \<open>all_loss\<close> the losses of
  the episodes before.
\<close>

definition step_events :: "'i episode \<Rightarrow> real list list \<Rightarrow> real \<Rightarrow> real list \<Rightarrow> 'i event list" where
  "step_events episode scores loss all_loss =
     (case episode of (support_images, support_labels, query_images, query_labels, _) \<Rightarrow>
        [(Zero_grad, Returned RNone),
         (To_device DEVICE, Returned RNone),
         (To_device DEVICE, Returned RNone),
         (Process_support_set support_images support_labels, Returned RNone),
         (To_device DEVICE, Returned RNone),
         (Forward query_images, Returned (RScores scores)),
         (To_device DEVICE, Returned RNone),
         (Cross_entropy_loss scores query_labels, Returned (RReal loss)),
         (Backward loss, Returned RNone),
         (Optimizer_step, Returned RNone),
         (Loss_item, Returned (RReal loss)),
         (Mean (all_loss @ [loss]),
            Returned (RReal (sum_list (all_loss @ [loss]) / real (length (all_loss @ [loss]))))),
         (Set_postfix (sum_list (all_loss @ [loss]) / real (length (all_loss @ [loss]))),
            Returned RNone)])"

fun epoch_events :: "'i episode list \<Rightarrow> (real list list \<times> real) list \<Rightarrow> real list \<Rightarrow> 'i event list" where
  "epoch_events (episode # episodes) ((scores, loss) # results) all_loss =
     step_events episode scores loss all_loss @ epoch_events episodes results (all_loss @ [loss])"
| "epoch_events _ _ all_loss = []"

subsection \<open>A concrete set of collaborators\<close>

text \<open>
  Collaborators that never raise, for running the definitions: the parameters are a counter of
  optimizer steps, an image is its class, a batch holds K + Q items of each of the classes
  \<open>0, .., N - 1\<close>, a pass delivers as many batches as the sampler has tasks, the classifier
  scores every class alike and every loss is 1.
\<close>

definition batch_of :: "task_sampler \<Rightarrow> (nat \<times> nat) list" where
  "batch_of s =
     concat (map (\<lambda>c. replicate (sampler_n_shot s + sampler_n_query s) (c, c)) [0..<sampler_n_way s])"

definition demo_ext :: "(nat, unit, nat) collaborators" where
  "demo_ext =
     \<lparr>c_setup = (\<lambda>c x. Inr ((), x)),
      c_model = (\<lambda>c p x. Inr ((), x)),
      c_resnet12 = (\<lambda>x. Inr (0, x)),
      c_forward = (\<lambda>p q x. Inr (map (\<lambda>i. [0, 0, 0, 0, 0]) q, x)),
      c_loss = (\<lambda>s l x. Inr (1, x)),
      c_step = (\<lambda>p x. Inr (Suc p, x)),
      c_batches = (\<lambda>l x. ((replicate (sampler_n_tasks (batch_sampler l)) (batch_of (collate_fn l)),
                             None), x))\<rparr>"

definition demo_world :: "(nat, unit, nat) world" where
  "demo_world =
     \<lparr>heap = (\<lambda>_. 0), next_free = 0,
      env = \<lparr>rng_numpy = 1, rng_torch = 2, rng_python = 3, cudnn_deterministic = False,
             cudnn_benchmark = True, other = ()\<rparr>,
      trace = []\<rparr>"

definition tiny_sampler :: task_sampler where
  "tiny_sampler = \<lparr>sampler_dataset = Train, sampler_n_way = 1, sampler_n_shot = 1,
                    sampler_n_query = 1, sampler_n_tasks = 2\<rparr>"

definition tiny_loader :: data_loader where
  "tiny_loader = \<lparr>dataset = Train, batch_sampler = tiny_sampler, num_workers = 0,
                   pin_memory = False, collate_fn = tiny_sampler\<rparr>"


definition tiny_optimizer :: optimizer where
  "tiny_optimizer = \<lparr>params = 0, lr = 1, momentum = 0, weight_decay = 0\<rparr>"

text \<open>The shape of an episode of an (N-way, K-shot, Q-query) sampler.\<close>

definition episode_shape :: "task_sampler \<Rightarrow> 'i episode \<Rightarrow> bool" where
  "episode_shape s episode =
     (case episode of (support_images, support_labels, query_images, query_labels, class_ids) \<Rightarrow>
        length support_images = sampler_n_way s * sampler_n_shot s
      \<and> length support_labels = sampler_n_way s * sampler_n_shot s
      \<and> length query_images = sampler_n_way s * sampler_n_query s
      \<and> length query_labels = sampler_n_way s * sampler_n_query s)"

subsection \<open>Runs in which no collaborator raises\<close>

text \<open>
  A program yields \<open>Q\<close> when from every world it returns a value that satisfies \<open>Q\<close>.
\<close>

definition yields :: "('a, 'w) prog \<Rightarrow> ('a \<Rightarrow> bool) \<Rightarrow> bool" where
  "yields m Q \<longleftrightarrow> (\<forall>w. \<exists>a w'. m w = (Inr a, w') \<and> Q a)"

text \<open>
  Cooperative collaborators: every call returns, and every pass over one of the notebook's
  loaders ends without an exception after delivering at least one batch, each of the size of
  the loader's sampler.
\<close>

definition cooperative :: "('p, 'x, 'i) collaborators \<Rightarrow> bool" where
  "cooperative ext \<longleftrightarrow>
     (\<forall>c x. \<exists>x'. c_setup ext c x = Inr ((), x'))
   \<and> (\<forall>c p x. \<exists>x'. c_model ext c p x = Inr ((), x'))
   \<and> (\<forall>x. \<exists>p x'. c_resnet12 ext x = Inr (p, x'))
   \<and> (\<forall>p q x. \<exists>s x'. c_forward ext p q x = Inr (s, x'))
   \<and> (\<forall>s l x. \<exists>v x'. c_loss ext s l x = Inr (v, x'))
   \<and> (\<forall>p x. \<exists>p' x'. c_step ext p x = Inr (p', x'))
   \<and> (\<forall>l \<in> {train_loader, val_loader, test_loader}. \<forall>x. \<exists>bs x'.
         c_batches ext l x = ((bs, None), x') \<and> bs \<noteq> []
       \<and> (\<forall>b \<in> set bs. length b = sampler_n_way (collate_fn l)
                                    * (sampler_n_shot (collate_fn l) + sampler_n_query (collate_fn l))))"

subsection \<open>Exceptions and phases in a trace\<close>



text \<open>
  The phases of a run: a training pass over a loader starts where \<open>training_epoch\<close> starts to
  iterate it, an evaluation pass is a call of \<open>evaluate\<close>, the restoration is the call of
  \<^verbatim>\<open>load_state_dict\<close>.
\<close>

datatype phase = Training_pass data_loader | Evaluation_pass data_loader | Restore

definition phase_of :: "'i call \<Rightarrow> phase list" where
  "phase_of c =
     (case c of
        Iterate l \<Rightarrow> [Training_pass l]
      | Evaluate l \<Rightarrow> [Evaluation_pass l]
      | Load_state_dict _ \<Rightarrow> [Restore]
      | _ \<Rightarrow> [])"

definition phases :: "'i event list \<Rightarrow> phase list" where
  "phases evs = concat (map (\<lambda>ev. phase_of (fst ev)) evs)"




text \<open>The episode the notebook's samplers collate from a batch of the concrete collaborators.\<close>

definition demo_episode :: "nat episode" where
  "demo_episode =
     (concat (map (replicate 5) [0, 1, 2, 3, 4]), concat (map (replicate 5) [0, 1, 2, 3, 4]),
      concat (map (replicate 10) [0, 1, 2, 3, 4]), concat (map (replicate 10) [0, 1, 2, 3, 4]),
      [0, 1, 2, 3, 4])"

text \<open>The scalars sent to the TensorBoard writer, as (tag, value, step), in order.\<close>

definition scalars :: "'i event list \<Rightarrow> (string \<times> real \<times> nat) list" where
  "scalars evs =
     concat (map (\<lambda>ev. case fst ev of Add_scalar tag v step \<Rightarrow> [(tag, v, step)] | _ \<Rightarrow> []) evs)"

text \<open>The accuracies that the evaluations over the validation loader returned, in order.\<close>

definition validation_accuracies :: "'i event list \<Rightarrow> real list" where
  "validation_accuracies evs =
     concat (map (\<lambda>ev. case ev of
                          (Evaluate l, Returned (RReal a)) \<Rightarrow> if l = val_loader then [a] else []
                        | _ \<Rightarrow> []) evs)"

text \<open>The references that the calls of \<^verbatim>\<open>state_dict\<close> returned, in order.\<close>

definition snapshots :: "'i event list \<Rightarrow> addr list" where
  "snapshots evs =
     concat (map (\<lambda>ev. case ev of (State_dict, Returned (RRef a)) \<Rightarrow> [a] | _ \<Rightarrow> []) evs)"


section \<open>Programs that return\<close>

lemma py_bind_Inr:
  "py_bind m f w = (Inr b, w') \<longleftrightarrow> (\<exists>a w1. m w = (Inr a, w1) \<and> f a w1 = (Inr b, w'))"
  by (auto simp: py_bind_def split: prod.splits sum.splits)

lemma py_return_Inr: "py_return a w = (Inr b, w') \<longleftrightarrow> b = a \<and> w' = w"
  by (auto simp: py_return_def)

lemma extcall_Inr:
  "extcall c shw m w = (Inr a, w') \<longleftrightarrow>
     (\<exists>w1. m w = (Inr a, w1) \<and> w' = w1\<lparr>trace := trace w @ [(c, Returned (shw a))]\<rparr>)"
  by (auto simp: extcall_def split: prod.splits sum.splits)

lemma on_env_Inr:
  "on_env g w = (Inr a, w') \<longleftrightarrow> (\<exists>x. g (env w) = Inr (a, x) \<and> w' = w\<lparr>env := x\<rparr>)"
  by (auto simp: on_env_def split: prod.splits sum.splits)

lemma emitted_append: "trace w' = trace w @ evs \<Longrightarrow> emitted w w' = evs"
  by (simp add: emitted_def)

lemma setup_call_Inr:
  "setup_call ext c w = (Inr u, w') \<Longrightarrow>
     trace w' = trace w @ [(c, Returned RNone)] \<and> heap w' = heap w \<and> next_free w' = next_free w"
  by (auto simp: setup_call_def extcall_Inr on_env_Inr)

lemma model_call_Inr:
  "model_call ext c a w = (Inr u, w') \<Longrightarrow>
     trace w' = trace w @ [(c, Returned RNone)] \<and> heap w' = heap w \<and> next_free w' = next_free w"
  by (auto simp: model_call_def extcall_Inr on_env_Inr)

lemma forward_Inr:
  "forward ext model qi w = (Inr scores, w') \<Longrightarrow>
     trace w' = trace w @ [(Forward qi, Returned (RScores scores))] \<and> heap w' = heap w
       \<and> next_free w' = next_free w"
  by (auto simp: forward_def extcall_Inr on_env_Inr)

lemma LOSS_FUNCTION_Inr:
  "LOSS_FUNCTION ext scores labels w = (Inr l, w') \<Longrightarrow>
     trace w' = trace w @ [(Cross_entropy_loss scores labels, Returned (RReal l))] \<and> heap w' = heap w
       \<and> next_free w' = next_free w"
  by (auto simp: LOSS_FUNCTION_def extcall_Inr on_env_Inr)

lemma loss_item_Inr:
  "loss_item ext l w = (Inr item, w') \<Longrightarrow>
     item = l \<and> trace w' = trace w @ [(Loss_item, Returned (RReal l))] \<and> heap w' = heap w
       \<and> next_free w' = next_free w"
  by (auto simp: loss_item_def extcall_Inr on_env_Inr py_bind_Inr py_return_Inr)

lemma mean_call_Inr:
  "mean_call xs w = (Inr m, w') \<Longrightarrow>
     mean xs = Inr m \<and> trace w' = trace w @ [(Mean xs, Returned (RReal m))] \<and> heap w' = heap w
       \<and> next_free w' = next_free w"
  by (auto simp: mean_call_def extcall_Inr)

lemma optimizer_step_Inr:
  "optimizer_step ext opt w = (Inr u, w') \<Longrightarrow>
     trace w' = trace w @ [(Optimizer_step, Returned RNone)] \<and> next_free w' = next_free w
       \<and> (\<exists>p x. c_step ext (heap w (params opt)) (env w) = Inr (p, x)
                 \<and> heap w' = (heap w)(params opt := p))"
  by (auto simp: optimizer_step_def extcall_Inr split: sum.splits prod.splits)


lemma mean_Inr: "mean xs = Inr m \<longleftrightarrow> xs \<noteq> [] \<and> m = sum_list xs / real (length xs)"
  by (auto simp: mean_def)

lemma training_step_events:
  assumes "training_step ext model opt episode acc w = (Inr r, w')"
  shows "\<exists>scores loss. trace w' = trace w @ step_events episode scores loss acc \<and> r = acc @ [loss]
           \<and> next_free w' = next_free w
           \<and> (\<exists>p x x'. c_step ext (heap w (params opt)) x = Inr (p, x')
                  \<and> heap w' = (heap w)(params opt := p))"
proof -
  obtain si sl qi ql ids where ep: "episode = (si, sl, qi, ql, ids)"
    by (cases episode) auto
  from assms obtain w1 w2 w3 w4 w5 w6 w7 w8 w9 w10 w11 w12 scores loss item m where
    c1: "model_call ext Zero_grad (params opt) w = (Inr (), w1)" and
    c2: "setup_call ext (To_device DEVICE) w1 = (Inr (), w2)" and
    c3: "setup_call ext (To_device DEVICE) w2 = (Inr (), w3)" and
    c4: "model_call ext (Process_support_set si sl) model w3 = (Inr (), w4)" and
    c5: "setup_call ext (To_device DEVICE) w4 = (Inr (), w5)" and
    c6: "forward ext model qi w5 = (Inr scores, w6)" and
    c7: "setup_call ext (To_device DEVICE) w6 = (Inr (), w7)" and
    c8: "LOSS_FUNCTION ext scores ql w7 = (Inr loss, w8)" and
    c9: "model_call ext (Backward loss) model w8 = (Inr (), w9)" and
    c10: "optimizer_step ext opt w9 = (Inr (), w10)" and
    c11: "loss_item ext loss w10 = (Inr item, w11)" and
    c12: "mean_call (acc @ [item]) w11 = (Inr m, w12)" and
    c13: "setup_call ext (Set_postfix m) w12 = (Inr (), w')" and
    r: "r = acc @ [item]"
    unfolding ep training_step_def zero_grad_def to_device_def process_support_set_def
      backward_def set_postfix_def
    by (auto simp: py_bind_Inr py_return_Inr)
  note f = model_call_Inr[OF c1] setup_call_Inr[OF c2] setup_call_Inr[OF c3] model_call_Inr[OF c4]
    setup_call_Inr[OF c5] forward_Inr[OF c6] setup_call_Inr[OF c7] LOSS_FUNCTION_Inr[OF c8]
    model_call_Inr[OF c9] loss_item_Inr[OF c11] mean_call_Inr[OF c12] setup_call_Inr[OF c13]
  from optimizer_step_Inr[OF c10] obtain p x where
    o: "trace w10 = trace w9 @ [(Optimizer_step, Returned RNone)]" "next_free w10 = next_free w9"
       "c_step ext (heap w9 (params opt)) (env w9) = Inr (p, x)"
       "heap w10 = (heap w9)(params opt := p)"
    by blast
  have h9: "heap w9 = heap w" using f by simp
  have tr: "trace w' = trace w @ step_events episode scores loss acc"
    using f o(1) by (simp add: ep step_events_def mean_Inr)
  have nf: "next_free w' = next_free w" using f o(2) by simp
  have hp: "heap w' = (heap w)(params opt := p)" using f o(4) h9 by simp
  from o(3) h9 have "c_step ext (heap w (params opt)) (env w9) = Inr (p, x)" by simp
  with tr nf hp r f show ?thesis by blast
qed

lemma training_episodes_events:
  "training_episodes ext model opt episodes acc w = (Inr r, w') \<Longrightarrow>
     \<exists>results. length results = length episodes
        \<and> trace w' = trace w @ epoch_events episodes results acc
        \<and> r = acc @ map snd results \<and> next_free w' = next_free w"
proof (induction episodes arbitrary: acc w)
  case Nil
  then show ?case by (simp add: py_return_Inr)
next
  case (Cons episode episodes)
  from Cons.prems obtain a w1 where
    st: "training_step ext model opt episode acc w = (Inr a, w1)" and
    rest: "training_episodes ext model opt episodes a w1 = (Inr r, w')"
    by (auto simp: py_bind_Inr)
  from training_step_events[OF st] obtain scores loss where
    s: "trace w1 = trace w @ step_events episode scores loss acc" "a = acc @ [loss]"
       "next_free w1 = next_free w"
    by blast
  from Cons.IH[OF rest] obtain results where
    r: "length results = length episodes" "trace w' = trace w1 @ epoch_events episodes results a"
       "r = a @ map snd results" "next_free w' = next_free w1"
    by blast
  show ?case
    by (rule exI[of _ "(scores, loss) # results"]) (use s r in simp)
qed

lemma optimizer_steps_append [simp]:
  "optimizer_steps (xs @ ys) = optimizer_steps xs + optimizer_steps ys"
  by (simp add: optimizer_steps_def)

lemma loss_items_append [simp]: "loss_items (xs @ ys) = loss_items xs @ loss_items ys"
  by (simp add: loss_items_def)

lemma optimizer_steps_Nil [simp]: "optimizer_steps [] = 0"
  by (simp add: optimizer_steps_def)

lemma loss_items_Nil [simp]: "loss_items [] = []"
  by (simp add: loss_items_def)

lemma optimizer_steps_step_events [simp]: "optimizer_steps (step_events episode scores loss acc) = 1"
  by (cases episode) (simp add: step_events_def optimizer_steps_def)

lemma loss_items_step_events [simp]: "loss_items (step_events episode scores loss acc) = [loss]"
  by (cases episode) (simp add: step_events_def loss_items_def)

lemma optimizer_steps_epoch_events:
  "length results = length episodes \<Longrightarrow>
     optimizer_steps (epoch_events episodes results acc) = length episodes"
  by (induction episodes results acc rule: epoch_events.induct) simp_all


lemma iterate_Inr:
  "iterate ext l w = (Inr r, w') \<Longrightarrow>
     trace w' = trace w @ [(Iterate l, Returned (REpisodes (fst r)))] \<and> heap w' = heap w
       \<and> next_free w' = next_free w
       \<and> (\<exists>bs st x. c_batches ext l (env w) = ((bs, st), x) \<and> r = collate_all (collate_fn l) bs st)"
  by (auto simp: iterate_def extcall_Inr split: prod.splits)

lemma end_of_iteration_Inr: "end_of_iteration stop w = (Inr u, w') \<Longrightarrow> stop = None \<and> w' = w"
  by (cases stop) (auto simp: end_of_iteration_def py_return_Inr extcall_Inr py_raise_def)

lemma training_epoch_Inr:
  assumes "training_epoch ext model loader opt w = (Inr avg, w')"
  shows "\<exists>w1 w2 episodes results.
           model_call ext Model_train model w = (Inr (), w1)
         \<and> iterate ext loader w1 = (Inr (episodes, None), w2)
         \<and> length results = length episodes
         \<and> trace w' = trace w @
             (Model_train, Returned RNone) # (Iterate loader, Returned (REpisodes episodes))
               # epoch_events episodes results [] @ [(Mean (map snd results), Returned (RReal avg))]
         \<and> mean (map snd results) = Inr avg
         \<and> next_free w' = next_free w"
proof -
  from assms obtain w1 w2 w3 w4 episodes stop all_loss where
    a: "model_call ext Model_train model w = (Inr (), w1)" and
    b: "iterate ext loader w1 = (Inr (episodes, stop), w2)" and
    c: "training_episodes ext model opt episodes [] w2 = (Inr all_loss, w3)" and
    d: "end_of_iteration stop w3 = (Inr (), w4)" and
    e: "mean_call all_loss w4 = (Inr avg, w')"
    unfolding training_epoch_def by (auto simp: py_bind_Inr)
  from training_episodes_events[OF c] obtain results where
    r: "length results = length episodes" "trace w3 = trace w2 @ epoch_events episodes results []"
       "all_loss = map snd results" "next_free w3 = next_free w2"
    by auto
  from end_of_iteration_Inr[OF d] have s: "stop = None" "w4 = w3" by auto
  show ?thesis
    using a b r s model_call_Inr[OF a] iterate_Inr[OF b] mean_call_Inr[OF e]
    by (intro exI[of _ w1] exI[of _ w2] exI[of _ episodes] exI[of _ results]) simp
qed


lemma optimizer_steps_Cons:
  "optimizer_steps (ev # evs) = (if fst ev = Optimizer_step then 1 else 0) + optimizer_steps evs"
  by (simp add: optimizer_steps_def)




lemmas prog_defs = py_bind_def py_return_def py_raise_def extcall_def on_env_def setup_call_def
  model_call_def

lemmas call_defs = zero_grad_def to_device_def process_support_set_def forward_def LOSS_FUNCTION_def
  backward_def optimizer_step_def loss_item_def mean_call_def set_postfix_def mean_def

lemma demo_training_step:
  "training_step demo_ext model opt episode acc v =
     (Inr (acc @ [1]),
      v\<lparr>heap := (heap v)(params opt := Suc (heap v (params opt))),
        trace := trace v @ step_events episode (map (\<lambda>i. [0, 0, 0, 0, 0]) (fst (snd (snd episode)))) 1 acc\<rparr>)"
  by (cases episode) (simp add: training_step_def prog_defs call_defs demo_ext_def step_events_def)

lemma tiny_collate:
  "episodic_collate_fn tiny_sampler (batch_of tiny_sampler) = Inr ([0], [0], [0], [0], [0])"
  by (simp add: episodic_collate_fn_def tiny_sampler_def batch_of_def Let_def)

lemma demo_model_call: "model_call demo_ext c a w = (Inr (), w\<lparr>trace := trace w @ [(c, Returned RNone)]\<rparr>)"
  by (simp add: prog_defs demo_ext_def)

lemma demo_setup_call: "setup_call demo_ext c w = (Inr (), w\<lparr>trace := trace w @ [(c, Returned RNone)]\<rparr>)"
  by (simp add: prog_defs demo_ext_def)

lemma demo_iterate:
  "iterate demo_ext l w =
     (Inr (collate_all (collate_fn l) (replicate (sampler_n_tasks (batch_sampler l)) (batch_of (collate_fn l))) None),
      w\<lparr>trace := trace w @ [(Iterate l, Returned (REpisodes (fst (collate_all (collate_fn l)
           (replicate (sampler_n_tasks (batch_sampler l)) (batch_of (collate_fn l))) None))))]\<rparr>)"
  by (simp add: iterate_def prog_defs demo_ext_def)

lemma tiny_pass:
  "collate_all (collate_fn tiny_loader)
     (replicate (sampler_n_tasks (batch_sampler tiny_loader)) (batch_of (collate_fn tiny_loader))) None
   = ([([0], [0], [0], [0], [0]), ([0], [0], [0], [0], [0])], None)"
  by (simp add: tiny_loader_def tiny_collate eval_nat_numeral
        tiny_sampler_def[THEN arg_cong[of _ _ sampler_n_tasks]])


lemma tiny_training_epoch:
  "fst (training_epoch demo_ext 0 tiny_loader tiny_optimizer demo_world) = Inr 1"
  by (simp add: training_epoch_def py_bind_def py_return_def demo_model_call demo_iterate tiny_pass
        demo_training_step end_of_iteration_def mean_call_def extcall_def mean_def)


text \<open>
  Claim C3. Whenever a training step on an episode completes, the calls it made are, in this
  order: \<^verbatim>\<open>optimizer.zero_grad()\<close>, \<^verbatim>\<open>model.process_support_set\<close> on the episode's support
  images and support labels, the forward call on its query images, the cross-entropy loss of
  the scores that call returned against its query labels, \<^verbatim>\<open>backward\<close> on that loss, and one
  \<^verbatim>\<open>optimizer.step()\<close> (with the device transfers, \<^verbatim>\<open>loss.item()\<close> and the progress bar in
  between); the tensor storage changes at the optimizer's parameters only, to what that one
  optimizer step computed. Whenever \<open>training_epoch\<close> completes, its calls are
  \<^verbatim>\<open>model.train()\<close>, the start of the pass, these calls for each episode delivered, in order,
  and the final \<^verbatim>\<open>mean\<close>; the number of optimizer steps is the number of episodes.
\<close>

theorem training_epoch_interaction:
  assumes "training_epoch ext model loader optimizer w = (Inr avg, w')"
  shows "(\<exists>episodes results.
            length results = length episodes
          \<and> emitted w w' =
              (Model_train, Returned RNone) # (Iterate loader, Returned (REpisodes episodes))
                # epoch_events episodes results [] @ [(Mean (map snd results), Returned (RReal avg))]
          \<and> optimizer_steps (emitted w w') = length episodes)
       \<and> (\<forall>episode all_loss v r v'.
             training_step ext model optimizer episode all_loss v = (Inr r, v') \<longrightarrow>
               (\<exists>scores loss p x x'.
                   emitted v v' = step_events episode scores loss all_loss
                 \<and> optimizer_steps (emitted v v') = 1
                 \<and> r = all_loss @ [loss]
                 \<and> c_step ext (heap v (params optimizer)) x = Inr (p, x')
                 \<and> heap v' = (heap v)(params optimizer := p)))"
proof (intro conjI allI impI)
  from training_epoch_Inr[OF assms] obtain episodes results where
    r: "length results = length episodes"
       "trace w' = trace w @
             (Model_train, Returned RNone) # (Iterate loader, Returned (REpisodes episodes))
               # epoch_events episodes results [] @ [(Mean (map snd results), Returned (RReal avg))]"
    by blast
  have "optimizer_steps (emitted w w') = length episodes"
    using r(1) by (simp add: emitted_append[OF r(2)] optimizer_steps_Cons optimizer_steps_epoch_events)
  with r show "\<exists>episodes results.
            length results = length episodes
          \<and> emitted w w' =
              (Model_train, Returned RNone) # (Iterate loader, Returned (REpisodes episodes))
                # epoch_events episodes results [] @ [(Mean (map snd results), Returned (RReal avg))]
          \<and> optimizer_steps (emitted w w') = length episodes"
    using emitted_append[OF r(2)] by blast
next
  fix episode all_loss v r v'
  assume "training_step ext model optimizer episode all_loss v = (Inr r, v')"
  from training_step_events[OF this] obtain scores loss p x x' where
    s: "trace v' = trace v @ step_events episode scores loss all_loss" "r = all_loss @ [loss]"
       "c_step ext (heap v (params optimizer)) x = Inr (p, x')"
       "heap v' = (heap v)(params optimizer := p)"
    by blast
  have "emitted v v' = step_events episode scores loss all_loss"
    by (rule emitted_append[OF s(1)])
  moreover from this have "optimizer_steps (emitted v v') = 1" by simp
  ultimately show "\<exists>scores loss p x x'.
                   emitted v v' = step_events episode scores loss all_loss
                 \<and> optimizer_steps (emitted v v') = 1
                 \<and> r = all_loss @ [loss]
                 \<and> c_step ext (heap v (params optimizer)) x = Inr (p, x')
                 \<and> heap v' = (heap v)(params optimizer := p)"
    using s by blast
qed

theorem training_epoch_interaction_witness:
  "training_epoch demo_ext 0 tiny_loader tiny_optimizer demo_world
     = (Inr 1, snd (training_epoch demo_ext 0 tiny_loader tiny_optimizer demo_world))
   \<and> (\<exists>episodes results.
         length results = length episodes
       \<and> emitted demo_world (snd (training_epoch demo_ext 0 tiny_loader tiny_optimizer demo_world)) =
           (Model_train, Returned RNone) # (Iterate tiny_loader, Returned (REpisodes episodes))
             # epoch_events episodes results [] @ [(Mean (map snd results), Returned (RReal 1))]
       \<and> optimizer_steps
           (emitted demo_world (snd (training_epoch demo_ext 0 tiny_loader tiny_optimizer demo_world)))
          = length episodes)
   \<and> training_step demo_ext 0 tiny_optimizer ([0], [0], [0], [0], [0]) [] demo_world
     = (Inr [1], snd (training_step demo_ext 0 tiny_optimizer ([0], [0], [0], [0], [0]) [] demo_world))
   \<and> (\<exists>scores loss p x x'.
         emitted demo_world
           (snd (training_step demo_ext 0 tiny_optimizer ([0], [0], [0], [0], [0]) [] demo_world))
           = step_events ([0], [0], [0], [0], [0]) scores loss []
       \<and> optimizer_steps (emitted demo_world
           (snd (training_step demo_ext 0 tiny_optimizer ([0], [0], [0], [0], [0]) [] demo_world))) = 1
       \<and> [1] = [] @ [loss]
       \<and> c_step demo_ext (heap demo_world (params tiny_optimizer)) x = Inr (p, x')
       \<and> heap (snd (training_step demo_ext 0 tiny_optimizer ([0], [0], [0], [0], [0]) [] demo_world))
           = (heap demo_world)(params tiny_optimizer := p))"
proof -
  have run: "training_epoch demo_ext 0 tiny_loader tiny_optimizer demo_world
     = (Inr 1, snd (training_epoch demo_ext 0 tiny_loader tiny_optimizer demo_world))"
    using tiny_training_epoch by (metis prod.collapse)
  have st: "training_step demo_ext 0 tiny_optimizer ([0], [0], [0], [0], [0]) [] demo_world
     = (Inr [1], snd (training_step demo_ext 0 tiny_optimizer ([0], [0], [0], [0], [0]) [] demo_world))"
    by (simp add: demo_training_step)
  note t = training_epoch_interaction[OF run]
  from t[THEN conjunct1] t[THEN conjunct2, rule_format, OF st] run st show ?thesis
    by (intro conjI)
qed

section \<open>Episodes\<close>

lemma row_length:
  assumes "length xs = n * p" "c < n"
  shows "length (take p (drop (c * p) xs)) = p"
proof -
  from assms(2) have "Suc c \<le> n" by simp
  then have "Suc c * p \<le> n * p" by (rule mult_le_mono1)
  then have "p \<le> n * p - c * p" by simp
  with assms(1) show ?thesis by simp
qed

lemma length_concat_rows:
  assumes "\<And>c. c < n \<Longrightarrow> length (f c) = k"
  shows "length (concat (map f [0..<n])) = n * k"
proof -
  have "map (length \<circ> f) [0..<n] = replicate n k"
    using assms by (auto simp: list_eq_iff_nth_eq)
  then show ?thesis by (simp add: length_concat sum_list_replicate)
qed

lemma length_take_prefix: "length r = k + q \<Longrightarrow> length (take k r) = k"
  by simp

lemma length_drop_prefix: "length r = k + q \<Longrightarrow> length (drop k r) = q"
  by simp

lemma episodic_collate_fn_Inr:
  assumes "episodic_collate_fn s batch = Inr episode"
  shows "length batch = sampler_n_way s * (sampler_n_shot s + sampler_n_query s)
       \<and> episode_shape s episode
       \<and> snd (snd (snd (snd episode))) = remdups (map snd batch)"
proof -
  let ?p = "sampler_n_shot s + sampler_n_query s"
  let ?row = "\<lambda>c. take ?p (drop (c * ?p) batch)"
  from assms have len: "length batch = sampler_n_way s * ?p"
    by (auto simp: episodic_collate_fn_def Let_def split: if_splits)
  have row: "\<And>c. c < sampler_n_way s \<Longrightarrow> length (?row c) = ?p"
    by (rule row_length[OF len])
  have sup: "length (concat (map (\<lambda>c. take (sampler_n_shot s) (?row c)) [0..<sampler_n_way s]))
      = sampler_n_way s * sampler_n_shot s"
    by (rule length_concat_rows) (rule length_take_prefix, erule row)
  have qry: "length (concat (map (\<lambda>c. drop (sampler_n_shot s) (?row c)) [0..<sampler_n_way s]))
      = sampler_n_way s * sampler_n_query s"
    by (rule length_concat_rows) (rule length_drop_prefix, erule row)
  from assms len sup qry show ?thesis
    by (auto simp: episodic_collate_fn_def Let_def episode_shape_def comp_def)
qed

lemma episodic_collate_fn_total:
  "length batch = sampler_n_way s * (sampler_n_shot s + sampler_n_query s) \<Longrightarrow>
     \<exists>episode. episodic_collate_fn s batch = Inr episode"
  by (simp add: episodic_collate_fn_def Let_def)

lemma collate_all_set:
  "collate_all s batches stop = (episodes, st) \<Longrightarrow> episode \<in> set episodes \<Longrightarrow>
     \<exists>batch\<in>set batches. episodic_collate_fn s batch = Inr episode"
proof (induction batches arbitrary: episodes)
  case Nil
  then show ?case by simp
next
  case (Cons b bs)
  then show ?case
    by (auto split: sum.splits prod.splits)
qed

lemma iterate_shapes:
  assumes "iterate ext loader w = (Inr (episodes, stop), w')" "episode \<in> set episodes"
  shows "episode_shape (collate_fn loader) episode"
proof -
  from iterate_Inr[OF assms(1)] obtain bs st where
    "(episodes, stop) = collate_all (collate_fn loader) bs st"
    by auto
  from collate_all_set[OF this[symmetric] assms(2)] show ?thesis
    using episodic_collate_fn_Inr by blast
qed

lemma script_samplers:
  "sampler \<in> {train_sampler, val_sampler, test_sampler} \<Longrightarrow>
     sampler_n_way sampler = 5 \<and> sampler_n_shot sampler = 5 \<and> sampler_n_query sampler = 10"
  by (auto simp: train_sampler_def val_sampler_def test_sampler_def n_way_def n_shot_def n_query_def)

text \<open>
  Claim C4. The three samplers of the notebook are built with N = 5, K = 5, Q = 10, and each
  loader collates with its own sampler. For any sampler, the collation function returns an
  episode exactly for the batches of N * (K + Q) items, and every episode it returns is the
  5-tuple with N * K support images and labels and N * Q query images and labels (25 and 50
  for the notebook's samplers), the class-identifier mapping listing the distinct classes
  of the batch. Every episode that a pass over a loader delivers, and so every episode that
  \<open>training_epoch\<close> unpacks, has the shape of the loader's sampler.
\<close>

theorem episode_shapes:
  "(\<forall>sampler \<in> {train_sampler, val_sampler, test_sampler}.
       sampler_n_way sampler = 5 \<and> sampler_n_shot sampler = 5 \<and> sampler_n_query sampler = 10)
   \<and> collate_fn train_loader = train_sampler \<and> collate_fn val_loader = val_sampler
   \<and> collate_fn test_loader = test_sampler
   \<and> (length batch = sampler_n_way s * (sampler_n_shot s + sampler_n_query s)
        \<longleftrightarrow> (\<exists>episode. episodic_collate_fn s batch = Inr (episode :: 'i episode)))
   \<and> (episodic_collate_fn s batch = Inr (si, sl, qi, ql, ids) \<longrightarrow>
         length si = sampler_n_way s * sampler_n_shot s
       \<and> length sl = sampler_n_way s * sampler_n_shot s
       \<and> length qi = sampler_n_way s * sampler_n_query s
       \<and> length ql = sampler_n_way s * sampler_n_query s
       \<and> ids = remdups (map snd batch) \<and> length ids = card (snd ` set batch)
       \<and> (s \<in> {train_sampler, val_sampler, test_sampler} \<longrightarrow>
            length si = 25 \<and> length sl = 25 \<and> length qi = 50 \<and> length ql = 50))
   \<and> (training_epoch ext model loader optimizer w = (Inr avg, w') \<longrightarrow>
         (\<exists>episodes. (Iterate loader, Returned (REpisodes episodes)) \<in> set (emitted w w')
            \<and> (\<forall>episode \<in> set episodes. episode_shape (collate_fn loader) episode)))"
proof (intro conjI impI ballI)
  fix sampler :: task_sampler
  assume "sampler \<in> {train_sampler, val_sampler, test_sampler}"
  from script_samplers[OF this]
  show "sampler_n_way sampler = 5" "sampler_n_shot sampler = 5" "sampler_n_query sampler = 10"
    by simp_all
next
  show "collate_fn train_loader = train_sampler" by (simp add: train_loader_def)
  show "collate_fn val_loader = val_sampler" by (simp add: val_loader_def)
  show "collate_fn test_loader = test_sampler" by (simp add: test_loader_def)
next
  show "length batch = sampler_n_way s * (sampler_n_shot s + sampler_n_query s)
        \<longleftrightarrow> (\<exists>episode. episodic_collate_fn s batch = Inr (episode :: 'i episode))"
    using episodic_collate_fn_total episodic_collate_fn_Inr by blast
next
  assume c: "episodic_collate_fn s batch = Inr (si, sl, qi, ql, ids)"
  from episodic_collate_fn_Inr[OF c]
  have sh: "episode_shape s (si, sl, qi, ql, ids)" and ids: "ids = remdups (map snd batch)"
    by auto
  from sh show "length si = sampler_n_way s * sampler_n_shot s"
    "length sl = sampler_n_way s * sampler_n_shot s"
    "length qi = sampler_n_way s * sampler_n_query s"
    "length ql = sampler_n_way s * sampler_n_query s"
    by (simp_all add: episode_shape_def)
  from ids show "ids = remdups (map snd batch)" .
  from ids show "length ids = card (snd ` set batch)"
    by (simp add: length_remdups_card_conv)
  assume "s \<in> {train_sampler, val_sampler, test_sampler}"
  from script_samplers[OF this] sh
  show "length si = 25" "length sl = 25" "length qi = 50" "length ql = 50"
    by (simp_all add: episode_shape_def)
next
  assume run: "training_epoch ext model loader optimizer w = (Inr avg, w')"
  from training_epoch_Inr[OF run] obtain w1 w2 episodes results where
    it: "iterate ext loader w1 = (Inr (episodes, None), w2)" and
    tr: "trace w' = trace w @
             (Model_train, Returned RNone) # (Iterate loader, Returned (REpisodes episodes))
               # epoch_events episodes results [] @ [(Mean (map snd results), Returned (RReal avg))]"
    by blast
  have "(Iterate loader, Returned (REpisodes episodes)) \<in> set (emitted w w')"
    by (simp add: emitted_append[OF tr])
  moreover have "\<forall>episode \<in> set episodes. episode_shape (collate_fn loader) episode"
    using iterate_shapes[OF it] by blast
  ultimately show "\<exists>episodes. (Iterate loader, Returned (REpisodes episodes)) \<in> set (emitted w w')
            \<and> (\<forall>episode \<in> set episodes. episode_shape (collate_fn loader) episode)"
    by blast
qed

lemma length_batch_of:
  "length (batch_of s) = sampler_n_way s * (sampler_n_shot s + sampler_n_query s)"
  unfolding batch_of_def by (rule length_concat_rows) simp

theorem episode_shapes_witness:
  "sampler_n_way train_sampler = 5 \<and> sampler_n_shot val_sampler = 5
   \<and> sampler_n_query test_sampler = 10
   \<and> length (batch_of train_sampler) = 75
   \<and> (\<exists>si sl qi ql ids.
         episodic_collate_fn train_sampler (batch_of train_sampler) = Inr (si, sl, qi, ql, ids)
       \<and> length si = 25 \<and> length sl = 25 \<and> length qi = 50 \<and> length ql = 50
       \<and> length ids = card (snd ` set (batch_of train_sampler)))
   \<and> training_epoch demo_ext 0 tiny_loader tiny_optimizer demo_world
       = (Inr 1, snd (training_epoch demo_ext 0 tiny_loader tiny_optimizer demo_world))
   \<and> (\<exists>episodes.
         (Iterate tiny_loader, Returned (REpisodes episodes))
           \<in> set (emitted demo_world (snd (training_epoch demo_ext 0 tiny_loader tiny_optimizer demo_world)))
       \<and> (\<forall>episode \<in> set episodes. episode_shape tiny_sampler episode))"
proof -
  note t = episode_shapes[where s = train_sampler and batch = "batch_of train_sampler"
      and ext = demo_ext and model = 0 and loader = tiny_loader and optimizer = tiny_optimizer
      and w = demo_world and avg = 1
      and w' = "snd (training_epoch demo_ext 0 tiny_loader tiny_optimizer demo_world)"]
  have mem: "train_sampler \<in> {train_sampler, val_sampler, test_sampler}"
    "val_sampler \<in> {train_sampler, val_sampler, test_sampler}"
    "test_sampler \<in> {train_sampler, val_sampler, test_sampler}"
    by simp_all
  have len: "length (batch_of train_sampler) = 75"
    by (simp add: length_batch_of train_sampler_def n_way_def n_shot_def n_query_def)
  have len': "length (batch_of train_sampler)
      = sampler_n_way train_sampler * (sampler_n_shot train_sampler + sampler_n_query train_sampler)"
    by (rule length_batch_of)
  have run: "training_epoch demo_ext 0 tiny_loader tiny_optimizer demo_world
     = (Inr 1, snd (training_epoch demo_ext 0 tiny_loader tiny_optimizer demo_world))"
    using tiny_training_epoch by (metis prod.collapse)
  have cf: "collate_fn tiny_loader = tiny_sampler" by (simp add: tiny_loader_def)
  from t len' obtain episode :: "nat episode" where
    e: "episodic_collate_fn train_sampler (batch_of train_sampler) = Inr episode"
    by blast
  obtain si sl qi ql ids where ep: "episode = (si, sl, qi, ql, ids)"
    by (cases episode) auto
  note u = episode_shapes[where s = train_sampler and batch = "batch_of train_sampler"
      and si = si and sl = sl and qi = qi and ql = ql and ids = ids
      and ext = demo_ext and model = 0 and loader = tiny_loader and optimizer = tiny_optimizer
      and w = demo_world and avg = 1
      and w' = "snd (training_epoch demo_ext 0 tiny_loader tiny_optimizer demo_world)"]
  from u e ep mem(1) have shape:
    "length si = 25 \<and> length sl = 25 \<and> length qi = 50 \<and> length ql = 50
       \<and> length ids = card (snd ` set (batch_of train_sampler))"
    by blast
  from u mem have nkq: "sampler_n_way train_sampler = 5" "sampler_n_shot val_sampler = 5"
    "sampler_n_query test_sampler = 10"
    by blast+
  from u run cf have "\<exists>episodes.
         (Iterate tiny_loader, Returned (REpisodes episodes))
           \<in> set (emitted demo_world (snd (training_epoch demo_ext 0 tiny_loader tiny_optimizer demo_world)))
       \<and> (\<forall>episode \<in> set episodes. episode_shape tiny_sampler episode)"
    by simp
  with nkq len e ep shape run show ?thesis by blast
qed

section \<open>Evaluation\<close>

lemma process_support_set_Inr:
  "process_support_set ext model si sl w = (Inr u, w') \<Longrightarrow>
     heap w' = heap w \<and> next_free w' = next_free w"
  unfolding process_support_set_def by (auto dest: model_call_Inr)

lemma evaluate_on_one_task_Inr:
  assumes "evaluate_on_one_task ext model episode w = (Inr (c, t), w')"
  shows "c \<le> t \<and> t = length (fst (snd (snd (snd episode)))) \<and> heap w' = heap w
       \<and> next_free w' = next_free w"
proof -
  obtain si sl qi ql ids where ep: "episode = (si, sl, qi, ql, ids)"
    by (cases episode) auto
  from assms obtain w1 scores where
    a: "process_support_set ext model si sl w = (Inr (), w1)" and
    b: "forward ext model qi w1 = (Inr scores, w')" and
    c: "c = length (filter (\<lambda>(s, l). argmax s = l) (zip scores ql))" and
    t: "t = length ql"
    unfolding ep evaluate_on_one_task_def by (auto simp: py_bind_Inr py_return_Inr)
  have "length (filter (\<lambda>(s, l). argmax s = l) (zip scores ql)) \<le> length (zip scores ql)"
    by (rule length_filter_le)
  also have "\<dots> \<le> length ql" by simp
  finally have "c \<le> t" using c t by simp
  with t process_support_set_Inr[OF a] forward_Inr[OF b] show ?thesis by (simp add: ep)
qed

lemma evaluate_episodes_Inr:
  "evaluate_episodes ext model episodes c t w = (Inr (c', t'), w') \<Longrightarrow> c \<le> t \<Longrightarrow>
     c' \<le> t' \<and> t' = t + sum_list (map (\<lambda>ep. length (fst (snd (snd (snd ep))))) episodes)
       \<and> heap w' = heap w \<and> next_free w' = next_free w"
proof (induction episodes arbitrary: c t w)
  case Nil
  then show ?case by (simp add: py_return_Inr)
next
  case (Cons episode episodes)
  from Cons.prems(1) obtain c1 t1 w1 where
    a: "evaluate_on_one_task ext model episode w = (Inr (c1, t1), w1)" and
    b: "evaluate_episodes ext model episodes (c + c1) (t + t1) w1 = (Inr (c', t'), w')"
    by (auto simp: py_bind_Inr)
  from evaluate_on_one_task_Inr[OF a] Cons.prems(2) have le: "c + c1 \<le> t + t1" by simp
  from Cons.IH[OF b le] evaluate_on_one_task_Inr[OF a] show ?case by simp
qed

lemma evaluate_Inr:
  assumes "evaluate ext model loader w = (Inr a, w')"
  shows "0 \<le> a \<and> a \<le> 1 \<and> trace w' = trace w @ [(Evaluate loader, Returned (RReal a))]
       \<and> heap w' = heap w \<and> next_free w' = next_free w"
proof -
  from assms obtain w1 w2 w3 w4 episodes stop c t where
    m: "model_call ext Model_eval model w = (Inr (), w1)" and
    i: "iterate ext loader w1 = (Inr (episodes, stop), w2)" and
    e: "evaluate_episodes ext model episodes 0 0 w2 = (Inr (c, t), w3)" and
    s: "end_of_iteration stop w3 = (Inr (), w4)" and
    r: "t \<noteq> 0" "a = real c / real t" and
    w': "w' = w4\<lparr>trace := trace w @ [(Evaluate loader, Returned (RReal a))]\<rparr>"
    unfolding evaluate_def
    by (auto simp: extcall_Inr py_bind_Inr py_return_Inr py_raise_def split: if_splits)
  from evaluate_episodes_Inr[OF e] have ct: "c \<le> t" "heap w3 = heap w2" "next_free w3 = next_free w2"
    by simp_all
  from ct(1) r have "0 \<le> a" "a \<le> 1" by simp_all
  with w' ct model_call_Inr[OF m] iterate_Inr[OF i] end_of_iteration_Inr[OF s] show ?thesis
    by simp
qed

lemma evaluate_episodes_total:
  assumes "\<forall>episode v. \<exists>r v'. evaluate_on_one_task ext model episode v = (Inr r, v')"
  shows "\<exists>c' t' v'. evaluate_episodes ext model episodes c t v = (Inr (c', t'), v')"
proof (induction episodes arbitrary: c t v)
  case Nil
  show ?case by (simp add: py_return_def)
next
  case (Cons episode episodes)
  from assms obtain c1 t1 v1 where "evaluate_on_one_task ext model episode v = (Inr (c1, t1), v1)"
    by (metis surj_pair)
  with Cons.IH[of "c + c1" "t + t1" v1] show ?case by (auto simp: py_bind_def)
qed

section \<open>Runs in which no collaborator raises\<close>

lemma yields_return: "Q a \<Longrightarrow> yields (py_return a) Q"
  by (simp add: yields_def py_return_def)

lemma yields_bind:
  assumes "yields m Q" "\<And>a. Q a \<Longrightarrow> yields (f a) R"
  shows "yields (py_bind m f) R"
  unfolding yields_def
proof
  fix w
  from assms(1) obtain a w1 where a: "m w = (Inr a, w1)" "Q a" unfolding yields_def by blast
  from assms(2)[OF a(2)] obtain b w' where "f a w1 = (Inr b, w')" "R b" unfolding yields_def by blast
  with a show "\<exists>b w'. py_bind m f w = (Inr b, w') \<and> R b" by (simp add: py_bind_def)
qed

lemma yields_extcall:
  assumes "yields m Q"
  shows "yields (extcall c shw m) Q"
  unfolding yields_def
proof
  fix w
  from assms obtain a w1 where "m w = (Inr a, w1)" "Q a" unfolding yields_def by blast
  then show "\<exists>a w'. extcall c shw m w = (Inr a, w') \<and> Q a" by (simp add: extcall_def)
qed

lemma yields_weaken: "yields m Q \<Longrightarrow> (\<And>a. Q a \<Longrightarrow> R a) \<Longrightarrow> yields m R"
  unfolding yields_def by blast

lemma yieldsD: "yields m Q \<Longrightarrow> \<exists>a w'. m w = (Inr a, w') \<and> Q a"
  unfolding yields_def by blast

lemma yields_on_env:
  assumes "\<And>x. \<exists>a x'. g x = Inr (a, x') \<and> Q a"
  shows "yields (on_env g) Q"
  unfolding yields_def
proof
  fix w
  show "\<exists>a w'. on_env g w = (Inr a, w') \<and> Q a"
  proof -
    from assms obtain a x' where "g (env w) = Inr (a, x')" "Q a" by blast
    then show ?thesis by (simp add: on_env_def)
  qed
qed

lemma yields_pure: "Q a \<Longrightarrow> yields (\<lambda>w. (Inr a, f w)) Q"
  by (simp add: yields_def)

lemma yields_setup_call: "cooperative ext \<Longrightarrow> yields (setup_call ext c) (\<lambda>_. True)"
  unfolding setup_call_def
  by (rule yields_extcall, rule yields_on_env) (auto simp: cooperative_def)

lemma yields_model_call: 
  assumes "cooperative ext"
  shows "yields (model_call ext c a) (\<lambda>_. True)"
  unfolding model_call_def
proof (rule yields_extcall, unfold yields_def, rule allI)
  fix w
  show "\<exists>u w'. on_env (c_model ext c (heap w a)) w = (Inr u, w') \<and> True"
  proof -
    from assms obtain x' where "c_model ext c (heap w a) (env w) = Inr ((), x')"
      unfolding cooperative_def by blast
    then show ?thesis by (simp add: on_env_def)
  qed
qed

lemma yields_forward:
  assumes "cooperative ext"
  shows "yields (forward ext model qi) (\<lambda>_. True)"
  unfolding forward_def
proof (rule yields_extcall, unfold yields_def, rule allI)
  fix w
  show "\<exists>u w'. on_env (c_forward ext (heap w model) qi) w = (Inr u, w') \<and> True"
  proof -
    from assms obtain s x' where "c_forward ext (heap w model) qi (env w) = Inr (s, x')"
      unfolding cooperative_def by blast
    then show ?thesis by (simp add: on_env_def)
  qed
qed

lemma yields_LOSS_FUNCTION: "cooperative ext \<Longrightarrow> yields (LOSS_FUNCTION ext scores labels) (\<lambda>_. True)"
  unfolding LOSS_FUNCTION_def
  by (rule yields_extcall, rule yields_on_env) (auto simp: cooperative_def)

lemma yields_optimizer_step:
  assumes "cooperative ext"
  shows "yields (optimizer_step ext opt) (\<lambda>_. True)"
  unfolding optimizer_step_def
proof (rule yields_extcall, unfold yields_def, rule allI)
  fix w
  show "\<exists>u w'. (case c_step ext (heap w (params opt)) (env w) of
               Inl e \<Rightarrow> (Inl e, w)
             | Inr (p, x) \<Rightarrow> (Inr (), w\<lparr>heap := (heap w)(params opt := p), env := x\<rparr>)) = (Inr u, w') \<and> True"
  proof -
    from assms obtain p x' where "c_step ext (heap w (params opt)) (env w) = Inr (p, x')"
      unfolding cooperative_def by blast
    then show ?thesis by simp
  qed
qed

lemma yields_loss_item: "cooperative ext \<Longrightarrow> yields (loss_item ext loss) (\<lambda>_. True)"
  unfolding loss_item_def
  by (rule yields_extcall, rule yields_bind, rule yields_on_env)
     (auto simp: cooperative_def intro: yields_return)

lemma yields_mean_call: "xs \<noteq> [] \<Longrightarrow> yields (mean_call xs) (\<lambda>_. True)"
  unfolding mean_call_def
  by (rule yields_extcall) (simp add: yields_def mean_def)

lemmas yields_calls =
  yields_setup_call yields_model_call yields_forward yields_LOSS_FUNCTION yields_optimizer_step
  yields_loss_item

lemma yields_training_step:
  assumes "cooperative ext"
  shows "yields (training_step ext model opt episode acc) (\<lambda>r. length r = Suc (length acc))"
proof -
  obtain si sl qi ql ids where ep: "episode = (si, sl, qi, ql, ids)"
    by (cases episode) auto
  note c = yields_calls[OF assms]
  show ?thesis
    unfolding ep training_step_def zero_grad_def to_device_def process_support_set_def
      backward_def set_postfix_def prod.case
    by (rule yields_bind c yields_mean_call yields_return | simp)+
qed


lemma collate_all_total:
  assumes "\<forall>b \<in> set bs. length b = sampler_n_way s * (sampler_n_shot s + sampler_n_query s)"
  shows "\<exists>episodes. collate_all s bs None = (episodes, None) \<and> length episodes = length bs"
  using assms
proof (induction bs)
  case Nil
  show ?case by simp
next
  case (Cons b bs)
  then obtain ep where "episodic_collate_fn s b = Inr ep"
    using episodic_collate_fn_total[of b s] by auto
  with Cons show ?case by auto
qed

lemma coop_batches:
  assumes "cooperative ext" "l \<in> {train_loader, val_loader, test_loader}"
  shows "\<exists>bs x'. c_batches ext l x = ((bs, None), x') \<and> bs \<noteq> []
       \<and> (\<forall>b \<in> set bs. length b = sampler_n_way (collate_fn l)
                                    * (sampler_n_shot (collate_fn l) + sampler_n_query (collate_fn l)))"
proof -
  from assms(1) have "\<forall>l \<in> {train_loader, val_loader, test_loader}. \<forall>x. \<exists>bs x'.
         c_batches ext l x = ((bs, None), x') \<and> bs \<noteq> []
       \<and> (\<forall>b \<in> set bs. length b = sampler_n_way (collate_fn l)
                                    * (sampler_n_shot (collate_fn l) + sampler_n_query (collate_fn l)))"
    unfolding cooperative_def by (elim conjE)
  from bspec[OF this assms(2)] show ?thesis by (rule spec)
qed

lemma queries_positive:
  assumes "episodes \<noteq> []" "\<forall>ep \<in> set episodes. episode_shape s ep"
    "0 < sampler_n_way s * sampler_n_query s"
  shows "sum_list (map (\<lambda>ep. length (fst (snd (snd (snd ep))))) episodes) \<noteq> 0"
proof -
  from assms(1) obtain ep eps where e: "episodes = ep # eps" by (cases episodes) auto
  with assms(2) have "episode_shape s ep" by simp
  with assms(3) have "0 < length (fst (snd (snd (snd ep))))"
    by (cases ep) (simp add: episode_shape_def)
  with e show ?thesis by simp
qed

lemma yields_iterate:
  assumes "cooperative ext" "l \<in> {train_loader, val_loader, test_loader}"
  shows "yields (iterate ext l)
           (\<lambda>r. snd r = None \<and> fst r \<noteq> [] \<and> (\<forall>ep \<in> set (fst r). episode_shape (collate_fn l) ep))"
  unfolding yields_def
proof
  fix w
  show "\<exists>r w'. iterate ext l w = (Inr r, w')
          \<and> (snd r = None \<and> fst r \<noteq> [] \<and> (\<forall>ep \<in> set (fst r). episode_shape (collate_fn l) ep))"
  proof -
    from coop_batches[OF assms] obtain bs x' where
      b: "c_batches ext l (env w) = ((bs, None), x')" "bs \<noteq> []"
         "\<forall>b \<in> set bs. length b = sampler_n_way (collate_fn l)
                                    * (sampler_n_shot (collate_fn l) + sampler_n_query (collate_fn l))"
      by blast
    from collate_all_total[OF b(3)] obtain episodes where
      e: "collate_all (collate_fn l) bs None = (episodes, None)" "length episodes = length bs"
      by blast
    have run: "iterate ext l w = (Inr (episodes, None),
        w\<lparr>env := x', trace := trace w @ [(Iterate l, Returned (REpisodes episodes))]\<rparr>)"
      using b(1) e(1) by (simp add: iterate_def extcall_def)
    from iterate_shapes[OF run] e(2) b(2) run show ?thesis by auto
  qed
qed

lemma yields_training_episodes:
  assumes "cooperative ext"
  shows "yields (training_episodes ext model opt episodes acc)
           (\<lambda>r. length r = length acc + length episodes)"
proof (induction episodes arbitrary: acc)
  case Nil
  show ?case by (simp add: yields_return)
next
  case (Cons episode episodes)
  show ?case
    unfolding training_episodes.simps
    by (rule yields_bind[OF yields_training_step[OF assms]], rule yields_weaken[OF Cons.IH]) simp
qed

lemma yields_end_of_iteration: "yields (end_of_iteration None) (\<lambda>_. True)"
  by (simp add: end_of_iteration_def yields_return)

lemma yields_training_epoch:
  assumes "cooperative ext" "l \<in> {train_loader, val_loader, test_loader}"
  shows "yields (training_epoch ext model l opt) (\<lambda>_. True)"
  unfolding training_epoch_def
  apply (rule yields_bind[OF yields_model_call[OF assms(1)]])
  apply (rule yields_bind[OF yields_iterate[OF assms]])
  apply (clarsimp simp del: training_episodes.simps)
  apply (rule yields_bind[OF yields_training_episodes[OF assms(1)]])
  apply (rule yields_bind[OF yields_end_of_iteration])
  apply (rule yields_mean_call)
  apply auto
  done

lemma yields_process_support_set:
  "cooperative ext \<Longrightarrow> yields (process_support_set ext model si sl) (\<lambda>_. True)"
  unfolding process_support_set_def by (rule yields_model_call)

lemma yields_evaluate_on_one_task:
  assumes "cooperative ext"
  shows "yields (evaluate_on_one_task ext model episode)
           (\<lambda>r. snd r = length (fst (snd (snd (snd episode)))))"
proof -
  obtain si sl qi ql ids where ep: "episode = (si, sl, qi, ql, ids)"
    by (cases episode) auto
  show ?thesis
    unfolding ep evaluate_on_one_task_def prod.case
    by (rule yields_bind yields_process_support_set[OF assms] yields_forward[OF assms]
          yields_return | simp)+
qed

lemma yields_evaluate_episodes:
  assumes "cooperative ext"
  shows "yields (evaluate_episodes ext model episodes c t)
           (\<lambda>r. snd r = t + sum_list (map (\<lambda>ep. length (fst (snd (snd (snd ep))))) episodes))"
proof (induction episodes arbitrary: c t)
  case Nil
  show ?case by (simp add: yields_return)
next
  case (Cons episode episodes)
  show ?case
    unfolding evaluate_episodes.simps
    apply (rule yields_bind[OF yields_evaluate_on_one_task[OF assms]])
    apply (clarsimp simp del: evaluate_episodes.simps)
    apply (rule yields_weaken[OF Cons.IH])
    apply simp
    done
qed

lemma yields_evaluate:
  assumes "cooperative ext" "l \<in> {val_loader, test_loader}"
  shows "yields (evaluate ext model l) (\<lambda>a. 0 \<le> a \<and> a \<le> 1)"
proof -
  have l: "l \<in> {train_loader, val_loader, test_loader}" using assms(2) by auto
  have q: "0 < sampler_n_way (collate_fn l) * sampler_n_query (collate_fn l)"
    using assms(2)
    by (auto simp: val_loader_def test_loader_def val_sampler_def test_sampler_def n_way_def
          n_query_def)
  have "yields (evaluate ext model l) (\<lambda>_. True)"
    unfolding evaluate_def
  proof (rule yields_extcall, rule yields_bind[OF yields_model_call[OF assms(1)]],
      rule yields_bind[OF yields_iterate[OF assms(1) l]])
    fix u :: unit and r :: "'c episode list \<times> error option"
    assume r: "snd r = None \<and> fst r \<noteq> [] \<and> (\<forall>ep \<in> set (fst r). episode_shape (collate_fn l) ep)"
    obtain episodes stop where rr: "r = (episodes, stop)" by (cases r)
    from r q have pos: "sum_list (map (\<lambda>ep. length (fst (snd (snd (snd ep))))) episodes) \<noteq> 0"
      unfolding rr by (intro queries_positive) auto
    from r have stop: "stop = None" unfolding rr by simp
    show "yields (case r of (episodes, stop) \<Rightarrow>
            py_bind (evaluate_episodes ext model episodes 0 0) (\<lambda>(correct_predictions, total_predictions).
            py_bind (end_of_iteration stop) (\<lambda>_.
            if total_predictions = 0 then py_raise ZeroDivisionError
            else py_return (real correct_predictions / real total_predictions)))) (\<lambda>_. True)"
      unfolding rr prod.case stop
    proof (rule yields_bind[OF yields_evaluate_episodes[OF assms(1)]])
      fix ct :: "nat \<times> nat"
      assume "snd ct = 0 + sum_list (map (\<lambda>ep. length (fst (snd (snd (snd ep))))) episodes)"
      with pos have "snd ct \<noteq> 0" by simp
      then show "yields (case ct of (correct_predictions, total_predictions) \<Rightarrow>
            py_bind (end_of_iteration None) (\<lambda>_.
            if total_predictions = 0 then py_raise ZeroDivisionError
            else py_return (real correct_predictions / real total_predictions))) (\<lambda>_. True)"
        by (cases ct) (auto intro!: yields_bind[OF yields_end_of_iteration] yields_return)
    qed
  qed
  then show ?thesis
    unfolding yields_def using evaluate_Inr by metis
qed

section \<open>The training loop\<close>

lemma state_dict_Inr:
  "state_dict model w = (Inr st, w') \<Longrightarrow>
     st = model \<and> trace w' = trace w @ [(State_dict, Returned (RRef model))] \<and> heap w' = heap w
       \<and> next_free w' = next_free w"
  by (auto simp: state_dict_def extcall_Inr py_return_Inr)

lemma load_state_dict_Inr:
  "load_state_dict model st w = (Inr u, w') \<Longrightarrow>
     trace w' = trace w @ [(Load_state_dict st, Returned RNone)]
       \<and> heap w' = (heap w)(model := heap w st) \<and> next_free w' = next_free w"
  by (auto simp: load_state_dict_def extcall_Inr)

lemma training_episodes_heap:
  "training_episodes ext model opt episodes acc w = (Inr r, w') \<Longrightarrow> a \<noteq> params opt \<Longrightarrow>
     heap w' a = heap w a"
proof (induction episodes arbitrary: acc w)
  case Nil
  then show ?case by (simp add: py_return_Inr)
next
  case (Cons episode episodes)
  from Cons.prems(1) obtain r1 w1 where
    st: "training_step ext model opt episode acc w = (Inr r1, w1)" and
    rest: "training_episodes ext model opt episodes r1 w1 = (Inr r, w')"
    by (auto simp: py_bind_Inr)
  from training_step_events[OF st] Cons.prems(2) have "heap w1 a = heap w a" by auto
  with Cons.IH[OF rest Cons.prems(2)] show ?case by simp
qed

lemma training_epoch_heap:
  assumes "training_epoch ext model loader opt w = (Inr avg, w')" "a \<noteq> params opt"
  shows "heap w' a = heap w a"
proof -
  from assms(1) obtain w1 w2 w3 w4 episodes stop all_loss where
    a: "model_call ext Model_train model w = (Inr (), w1)" and
    b: "iterate ext loader w1 = (Inr (episodes, stop), w2)" and
    c: "training_episodes ext model opt episodes [] w2 = (Inr all_loss, w3)" and
    d: "end_of_iteration stop w3 = (Inr (), w4)" and
    e: "mean_call all_loss w4 = (Inr avg, w')"
    unfolding training_epoch_def by (auto simp: py_bind_Inr)
  from training_episodes_heap[OF c assms(2)] model_call_Inr[OF a] iterate_Inr[OF b]
    end_of_iteration_Inr[OF d] mean_call_Inr[OF e]
  show ?thesis by simp
qed

lemma epoch_body_Inr:
  assumes "epoch_body ext model opt epoch vars w = (Inr vars', w')"
  shows "\<exists>avg acc w1 w2 w3.
           setup_call ext (Print_epoch epoch) w = (Inr (), w1)
         \<and> training_epoch ext model train_loader opt w1 = (Inr avg, w2)
         \<and> evaluate ext model val_loader w2 = (Inr acc, w3)
         \<and> vars' = (if best_validation_accuracy vars < acc
                     then vars\<lparr>best_validation_accuracy := acc, best_state := model\<rparr> else vars)
                      \<lparr>average_loss := Some avg, validation_accuracy := Some acc\<rparr>
         \<and> trace w' = trace w3 @
              (if best_validation_accuracy vars < acc
               then [(State_dict, Returned (RRef model)), (Print_new_best, Returned RNone)] else [])
              @ [(Add_scalar ''Train/loss'' avg epoch, Returned RNone),
                 (Add_scalar ''Val/acc'' acc epoch, Returned RNone),
                 (Scheduler_step, Returned RNone)]
         \<and> heap w' = heap w2 \<and> next_free w' = next_free w"
proof -
  from assms obtain avg acc w1 w2 w3 w4 w5 w6 varsb where
    a: "setup_call ext (Print_epoch epoch) w = (Inr (), w1)" and
    b: "training_epoch ext model train_loader opt w1 = (Inr avg, w2)" and
    c: "evaluate ext model val_loader w2 = (Inr acc, w3)" and
    d: "(if best_validation_accuracy vars < acc
         then py_bind (state_dict model) (\<lambda>state.
              py_bind (setup_call ext Print_new_best) (\<lambda>_.
              py_return (vars\<lparr>best_validation_accuracy := acc, best_state := state\<rparr>)))
         else py_return vars) w3 = (Inr varsb, w4)" and
    e: "setup_call ext (Add_scalar ''Train/loss'' avg epoch) w4 = (Inr (), w5)" and
    f: "setup_call ext (Add_scalar ''Val/acc'' acc epoch) w5 = (Inr (), w6)" and
    g: "setup_call ext Scheduler_step w6 = (Inr (), w')" and
    v: "vars' = varsb\<lparr>average_loss := Some avg, validation_accuracy := Some acc\<rparr>"
    unfolding epoch_body_def add_scalar_def scheduler_step_def
    by (auto simp: py_bind_Inr py_return_Inr)
  have d': "varsb = (if best_validation_accuracy vars < acc
                     then vars\<lparr>best_validation_accuracy := acc, best_state := model\<rparr> else vars)
          \<and> trace w4 = trace w3 @
              (if best_validation_accuracy vars < acc
               then [(State_dict, Returned (RRef model)), (Print_new_best, Returned RNone)] else [])
          \<and> heap w4 = heap w3 \<and> next_free w4 = next_free w3"
  proof (cases "best_validation_accuracy vars < acc")
    case True
    with d obtain st w3a where
      "state_dict model w3 = (Inr st, w3a)" "setup_call ext Print_new_best w3a = (Inr (), w4)"
      "varsb = vars\<lparr>best_validation_accuracy := acc, best_state := st\<rparr>"
      by (auto simp: py_bind_Inr py_return_Inr)
    with True show ?thesis
      by (auto dest!: state_dict_Inr setup_call_Inr)
  next
    case False
    with d show ?thesis by (simp add: py_return_Inr)
  qed
  from training_epoch_Inr[OF b] have nf: "next_free w2 = next_free w1" by auto
  show ?thesis
    using a b c d' v nf setup_call_Inr[OF a] evaluate_Inr[OF c] setup_call_Inr[OF e]
      setup_call_Inr[OF f] setup_call_Inr[OF g]
    by (intro exI[of _ avg] exI[of _ acc] exI[of _ w1] exI[of _ w2] exI[of _ w3]) simp
qed

lemma test_Inr:
  assumes "test ext model w = (Inr accuracy, w')"
  shows "\<exists>w1. evaluate ext model test_loader w = (Inr accuracy, w1)
       \<and> trace w' = trace w @ [(Evaluate test_loader, Returned (RReal accuracy)),
                                  (Print_accuracy (100 * accuracy), Returned RNone)]
       \<and> heap w' = heap w \<and> next_free w' = next_free w"
proof -
  from assms obtain w1 where
    a: "evaluate ext model test_loader w = (Inr accuracy, w1)" and
    b: "setup_call ext (Print_accuracy (100 * accuracy)) w1 = (Inr (), w')"
    unfolding test_def by (auto simp: py_bind_Inr py_return_Inr)
  from a evaluate_Inr[OF a] setup_call_Inr[OF b] show ?thesis by auto
qed

lemma yields_state_dict: "yields (state_dict model) (\<lambda>st. st = model)"
  unfolding state_dict_def by (rule yields_extcall) (simp add: yields_return)

lemma yields_load_state_dict: "yields (load_state_dict model st) (\<lambda>_. True)"
  unfolding load_state_dict_def by (rule yields_extcall) (simp add: yields_def)

lemma yields_seed: "yields (seed src s) (\<lambda>_. True)"
  unfolding seed_def by (rule yields_extcall) (simp add: yields_def)

lemma yields_set_cudnn_deterministic: "yields (set_cudnn_deterministic b) (\<lambda>_. True)"
  unfolding set_cudnn_deterministic_def by (rule yields_extcall) (simp add: yields_def)

lemma yields_set_cudnn_benchmark: "yields (set_cudnn_benchmark b) (\<lambda>_. True)"
  unfolding set_cudnn_benchmark_def by (rule yields_extcall) (simp add: yields_def)

lemma yields_resnet12:
  assumes "cooperative ext"
  shows "yields (resnet12 ext) (\<lambda>_. True)"
  unfolding resnet12_def
proof (rule yields_extcall, unfold yields_def, rule allI)
  fix w
  show "\<exists>a w'. (case c_resnet12 ext (env w) of
               Inl e \<Rightarrow> (Inl e, w)
             | Inr (p, x) \<Rightarrow>
                 (Inr (next_free w),
                  w\<lparr>heap := (heap w)(next_free w := p), next_free := Suc (next_free w), env := x\<rparr>))
           = (Inr a, w') \<and> True"
  proof -
    from assms obtain p x' where "c_resnet12 ext (env w) = Inr (p, x')"
      unfolding cooperative_def by blast
    then show ?thesis by simp
  qed
qed

lemma yields_prototypical_networks:
  "cooperative ext \<Longrightarrow> yields (prototypical_networks ext backbone) (\<lambda>_. True)"
  unfolding prototypical_networks_def
  by (rule yields_extcall, rule yields_bind, rule yields_on_env)
     (auto simp: cooperative_def intro: yields_return)

lemma yields_set_seeds: "yields set_seeds (\<lambda>_. True)"
  unfolding set_seeds_def
  by (rule yields_bind yields_seed yields_set_cudnn_deterministic yields_set_cudnn_benchmark)+

lemma yields_build_loaders: "cooperative ext \<Longrightarrow> yields (build_loaders ext) (\<lambda>_. True)"
  unfolding build_loaders_def
  by (rule yields_bind yields_setup_call | assumption)+

lemma yields_build_classifier: "cooperative ext \<Longrightarrow> yields (build_classifier ext) (\<lambda>_. True)"
  unfolding build_classifier_def to_device_def
  by (rule yields_bind yields_setup_call yields_resnet12 yields_prototypical_networks yields_return
        | assumption | simp)+

lemma yields_build_training_helpers:
  "cooperative ext \<Longrightarrow> yields (build_training_helpers ext model) (\<lambda>opt. params opt = model)"
  unfolding build_training_helpers_def Let_def
  by (rule yields_bind yields_setup_call yields_return | assumption | simp)+

lemma yields_prepare:
  "cooperative ext \<Longrightarrow> yields (prepare ext) (\<lambda>r. params (snd r) = fst r)"
  unfolding prepare_def
  by (rule yields_bind yields_set_seeds yields_build_loaders yields_build_classifier
        yields_build_training_helpers yields_return | assumption | simp)+

lemma yields_epoch_body:
  assumes "cooperative ext"
  shows "yields (epoch_body ext model opt epoch vars) (\<lambda>_. True)"
proof -
  have tl: "train_loader \<in> {train_loader, val_loader, test_loader}" by simp
  have vl: "val_loader \<in> {val_loader, test_loader}" by simp
  show ?thesis
    unfolding epoch_body_def add_scalar_def scheduler_step_def
  proof (rule yields_bind[OF yields_setup_call[OF assms]],
      rule yields_bind[OF yields_training_epoch[OF assms tl]],
      rule yields_bind[OF yields_evaluate[OF assms vl]])
    fix avg acc :: real
    have br: "yields (if best_validation_accuracy vars < acc
              then py_bind (state_dict model) (\<lambda>state.
                   py_bind (setup_call ext Print_new_best) (\<lambda>_.
                   py_return (vars\<lparr>best_validation_accuracy := acc, best_state := state\<rparr>)))
              else py_return vars) (\<lambda>_. True)"
    proof (cases "best_validation_accuracy vars < acc")
      case True
      then show ?thesis
        by (simp only: if_True)
           (rule yields_bind[OF yields_state_dict], rule yields_bind[OF yields_setup_call[OF assms]],
            rule yields_return, rule TrueI)
    next
      case False
      then show ?thesis by (simp only: if_False) (rule yields_return, rule TrueI)
    qed
    show "yields (py_bind (if best_validation_accuracy vars < acc
              then py_bind (state_dict model) (\<lambda>state.
                   py_bind (setup_call ext Print_new_best) (\<lambda>_.
                   py_return (vars\<lparr>best_validation_accuracy := acc, best_state := state\<rparr>)))
              else py_return vars) (\<lambda>vars'.
            py_bind (setup_call ext (Add_scalar ''Train/loss'' avg epoch)) (\<lambda>_.
            py_bind (setup_call ext (Add_scalar ''Val/acc'' acc epoch)) (\<lambda>_.
            py_bind (setup_call ext Scheduler_step) (\<lambda>_.
            py_return (vars'\<lparr>average_loss := Some avg, validation_accuracy := Some acc\<rparr>))))))
          (\<lambda>_. True)"
      by (rule yields_bind[OF br], rule yields_bind[OF yields_setup_call[OF assms]],
          rule yields_bind[OF yields_setup_call[OF assms]],
          rule yields_bind[OF yields_setup_call[OF assms]], rule yields_return, rule TrueI)
  qed
qed

lemma yields_training_loop:
  assumes "cooperative ext"
  shows "yields (training_loop ext model opt epochs vars) (\<lambda>_. True)"
proof (induction epochs arbitrary: vars)
  case Nil
  show ?case by (simp add: yields_return)
next
  case (Cons epoch epochs)
  show ?case
    unfolding training_loop.simps
    by (rule yields_bind[OF yields_epoch_body[OF assms]]) (rule Cons.IH)
qed

lemma yields_train:
  "cooperative ext \<Longrightarrow> yields (train ext model opt n) (\<lambda>_. True)"
  unfolding train_def
  by (rule yields_bind[OF yields_state_dict]) (rule yields_training_loop)

lemma yields_test:
  assumes "cooperative ext"
  shows "yields (test ext model) (\<lambda>a. 0 \<le> a \<and> a \<le> 1)"
proof -
  have tl: "test_loader \<in> {val_loader, test_loader}" by simp
  show ?thesis
    unfolding test_def
    by (rule yields_bind yields_evaluate[OF assms tl] yields_setup_call[OF assms] yields_return
          | simp)+
qed

lemma yields_finish:
  assumes "cooperative ext"
  shows "yields (finish ext model vars) (\<lambda>a. 0 \<le> a \<and> a \<le> 1)"
  unfolding finish_def restore_best_def build_test_loader_def
  by (rule yields_bind yields_load_state_dict yields_setup_call[OF assms] yields_test[OF assms])+

lemma yields_notebook:
  assumes "cooperative ext"
  shows "yields (notebook ext) (\<lambda>_. True)"
  unfolding notebook_def
  apply (rule yields_bind[OF yields_prepare[OF assms]])
  apply (clarsimp simp: split_def)
  apply (rule yields_bind[OF yields_train[OF assms]])
  apply (rule yields_bind[OF yields_finish[OF assms]])
  apply (rule yields_return)
  apply simp
  done

lemma notebook_tasks:
  "l \<in> {train_loader, val_loader, test_loader} \<Longrightarrow> sampler_n_tasks (batch_sampler l) \<noteq> 0"
  by (auto simp: train_loader_def val_loader_def test_loader_def
        train_sampler_def val_sampler_def test_sampler_def n_tasks_per_epoch_def
        n_validation_tasks_def n_test_tasks_def)

lemma demo_cooperative: "cooperative demo_ext"
  unfolding cooperative_def
proof (intro conjI ballI allI)
  fix l :: data_loader and x :: "unit env"
  assume "l \<in> {train_loader, val_loader, test_loader}"
  from notebook_tasks[OF this]
  show "\<exists>bs x'. c_batches demo_ext l x = ((bs, None), x') \<and> bs \<noteq> []
       \<and> (\<forall>b \<in> set bs. length b = sampler_n_way (collate_fn l)
                                    * (sampler_n_shot (collate_fn l) + sampler_n_query (collate_fn l)))"
    by (simp add: demo_ext_def length_batch_of)
qed (simp_all add: demo_ext_def)

text \<open>
  Claim C5. Whenever \<open>evaluate\<close> returns, its result lies in \<open>[0, 1]\<close>: so does the
  validation accuracy every completed epoch assigns, and the test accuracy of the last cell,
  which is printed as \<open>100 * accuracy\<close>. \<open>evaluate\<close> does return when no collaborator raises
  and the pass delivers at least one query. (The division of the two counts is read as the
  exact quotient.)
\<close>

theorem evaluate_accuracy_range:
  "(evaluate ext model loader w = (Inr accuracy, w') \<longrightarrow> 0 \<le> accuracy \<and> accuracy \<le> 1)
   \<and> (model_call ext Model_eval model w = (Inr u, w1)
        \<and> iterate ext loader w1 = (Inr (episodes, None), w2)
        \<and> (\<exists>episode \<in> set episodes. fst (snd (snd (snd episode))) \<noteq> [])
        \<and> (\<forall>episode v. \<exists>r v'. evaluate_on_one_task ext model episode v = (Inr r, v'))
      \<longrightarrow> (\<exists>a v'. evaluate ext model loader w = (Inr a, v') \<and> 0 \<le> a \<and> a \<le> 1))
   \<and> (epoch_body ext model optimizer epoch vars w = (Inr vars', w') \<longrightarrow>
        (\<exists>a. validation_accuracy vars' = Some a \<and> 0 \<le> a \<and> a \<le> 1))
   \<and> (test ext model w = (Inr accuracy, w') \<longrightarrow>
        0 \<le> accuracy \<and> accuracy \<le> 1
      \<and> (Print_accuracy (100 * accuracy), Returned RNone) \<in> set (emitted w w'))"
proof (intro conjI impI)
  assume "evaluate ext model loader w = (Inr accuracy, w')"
  from evaluate_Inr[OF this] show "0 \<le> accuracy" "accuracy \<le> 1" by simp_all
next
  assume h: "model_call ext Model_eval model w = (Inr u, w1)
        \<and> iterate ext loader w1 = (Inr (episodes, None), w2)
        \<and> (\<exists>episode \<in> set episodes. fst (snd (snd (snd episode))) \<noteq> [])
        \<and> (\<forall>episode v. \<exists>r v'. evaluate_on_one_task ext model episode v = (Inr r, v'))"
  then obtain c t w3 where
    e: "evaluate_episodes ext model episodes 0 0 w2 = (Inr (c, t), w3)"
    using evaluate_episodes_total[of ext model episodes 0 0 w2] by blast
  from evaluate_episodes_Inr[OF e]
  have t: "t = 0 + sum_list (map (\<lambda>ep. length (fst (snd (snd (snd ep))))) episodes)" by simp
  from h obtain episode where "episode \<in> set episodes" "fst (snd (snd (snd episode))) \<noteq> []"
    by blast
  then have "0 < sum_list (map (\<lambda>ep. length (fst (snd (snd (snd ep))))) episodes)"
    by (induction episodes) auto
  with t have "t \<noteq> 0" by linarith
  with h e have "\<exists>a v'. evaluate ext model loader w = (Inr a, v')"
    by (simp add: evaluate_def extcall_def py_bind_def end_of_iteration_def py_return_def)
  then show "\<exists>a v'. evaluate ext model loader w = (Inr a, v') \<and> 0 \<le> a \<and> a \<le> 1"
    using evaluate_Inr by blast
next
  assume "epoch_body ext model optimizer epoch vars w = (Inr vars', w')"
  from epoch_body_Inr[OF this] obtain avg acc w2 w3 where
    "evaluate ext model val_loader w2 = (Inr acc, w3)"
    "validation_accuracy vars' = Some acc"
    by auto
  with evaluate_Inr show "\<exists>a. validation_accuracy vars' = Some a \<and> 0 \<le> a \<and> a \<le> 1"
    by blast
next
  assume t: "test ext model w = (Inr accuracy, w')"
  from test_Inr[OF t] obtain w1 where
    e: "evaluate ext model test_loader w = (Inr accuracy, w1)" and
    tr: "trace w' = trace w @ [(Evaluate test_loader, Returned (RReal accuracy)),
                                  (Print_accuracy (100 * accuracy), Returned RNone)]"
    by blast
  from evaluate_Inr[OF e] show "0 \<le> accuracy" "accuracy \<le> 1" by simp_all
  show "(Print_accuracy (100 * accuracy), Returned RNone) \<in> set (emitted w w')"
    by (simp add: emitted_append[OF tr])
qed

theorem evaluate_accuracy_range_witness:
  "(\<exists>a w'. evaluate demo_ext 0 val_loader demo_world = (Inr a, w') \<and> 0 \<le> a \<and> a \<le> 1)
   \<and> model_call demo_ext Model_eval 0 demo_world
       = (Inr (), snd (model_call demo_ext Model_eval 0 demo_world))
   \<and> iterate demo_ext tiny_loader (snd (model_call demo_ext Model_eval 0 demo_world))
       = (Inr ([([0], [0], [0], [0], [0]), ([0], [0], [0], [0], [0])], None),
          snd (iterate demo_ext tiny_loader (snd (model_call demo_ext Model_eval 0 demo_world))))
   \<and> (\<exists>episode \<in> set [([0::nat], [0::nat], [0::nat], [0::nat], [0::nat]), ([0], [0], [0], [0], [0])].
         fst (snd (snd (snd episode))) \<noteq> [])
   \<and> (\<forall>episode v. \<exists>r v'. evaluate_on_one_task demo_ext 0 episode v = (Inr r, v'))
   \<and> (\<exists>a v'. evaluate demo_ext 0 tiny_loader demo_world = (Inr a, v') \<and> 0 \<le> a \<and> a \<le> 1)
   \<and> (\<exists>vars' w'.
         epoch_body demo_ext 0 tiny_optimizer 0
           \<lparr>best_state = 0, best_validation_accuracy = 0, average_loss = None,
            validation_accuracy = None\<rparr> demo_world = (Inr vars', w')
       \<and> (\<exists>a. validation_accuracy vars' = Some a \<and> 0 \<le> a \<and> a \<le> 1))
   \<and> (\<exists>accuracy w'.
         test demo_ext 0 demo_world = (Inr accuracy, w')
       \<and> 0 \<le> accuracy \<and> accuracy \<le> 1
       \<and> (Print_accuracy (100 * accuracy), Returned RNone) \<in> set (emitted demo_world w'))"
proof -
  let ?w1 = "snd (model_call demo_ext Model_eval 0 demo_world)"
  let ?eps = "[([0::nat], [0::nat], [0::nat], [0::nat], [0::nat]), ([0], [0], [0], [0], [0])]"
  let ?vars = "\<lparr>best_state = 0, best_validation_accuracy = 0, average_loss = None,
            validation_accuracy = None\<rparr>"
  have vl: "val_loader \<in> {val_loader, test_loader}" by simp
  from yieldsD[OF yields_evaluate[OF demo_cooperative vl], of 0 demo_world]
  obtain a w' where ev: "evaluate demo_ext 0 val_loader demo_world = (Inr a, w')" by blast
  have c1: "\<exists>a w'. evaluate demo_ext 0 val_loader demo_world = (Inr a, w') \<and> 0 \<le> a \<and> a \<le> 1"
    using evaluate_accuracy_range[of demo_ext 0 val_loader demo_world a w'] ev by blast
  have h1: "model_call demo_ext Model_eval 0 demo_world = (Inr (), ?w1)"
    by (simp add: demo_model_call)
  have h2: "iterate demo_ext tiny_loader ?w1 = (Inr (?eps, None), snd (iterate demo_ext tiny_loader ?w1))"
    by (simp add: demo_iterate tiny_pass)
  have h3: "\<exists>episode \<in> set ?eps. fst (snd (snd (snd episode))) \<noteq> []" by simp
  have h4: "\<forall>episode v. \<exists>r v'. evaluate_on_one_task demo_ext 0 episode v = (Inr r, v')"
    using yieldsD[OF yields_evaluate_on_one_task[OF demo_cooperative]] by blast
  have c2: "\<exists>a v'. evaluate demo_ext 0 tiny_loader demo_world = (Inr a, v') \<and> 0 \<le> a \<and> a \<le> 1"
    using evaluate_accuracy_range[of demo_ext 0 tiny_loader demo_world _ _ "()" ?w1 ?eps
        "snd (iterate demo_ext tiny_loader ?w1)"] h1 h2 h3 h4
    by blast
  from yieldsD[OF yields_epoch_body[OF demo_cooperative], of 0 tiny_optimizer 0 ?vars demo_world]
  obtain vars' wb where eb: "epoch_body demo_ext 0 tiny_optimizer 0 ?vars demo_world = (Inr vars', wb)"
    by blast
  have c3: "\<exists>vars' w'. epoch_body demo_ext 0 tiny_optimizer 0 ?vars demo_world = (Inr vars', w')
       \<and> (\<exists>a. validation_accuracy vars' = Some a \<and> 0 \<le> a \<and> a \<le> 1)"
    using evaluate_accuracy_range[where ext = demo_ext and model = 0 and optimizer = tiny_optimizer
        and epoch = 0 and vars = ?vars and w = demo_world and vars' = vars' and w' = wb] eb
    by blast
  from yieldsD[OF yields_test[OF demo_cooperative], of 0 demo_world]
  obtain acc wt where te: "test demo_ext 0 demo_world = (Inr acc, wt)" by blast
  have c4: "\<exists>accuracy w'. test demo_ext 0 demo_world = (Inr accuracy, w')
       \<and> 0 \<le> accuracy \<and> accuracy \<le> 1
       \<and> (Print_accuracy (100 * accuracy), Returned RNone) \<in> set (emitted demo_world w')"
    using evaluate_accuracy_range[where ext = demo_ext and model = 0 and w = demo_world
        and accuracy = acc and w' = wt] te
    by blast
  from c1 h1 h2 h3 h4 c2 c3 c4 show ?thesis by (intro conjI)
qed

section \<open>Exceptions\<close>






















section \<open>Phases\<close>

lemma phases_append [simp]: "phases (xs @ ys) = phases xs @ phases ys"
  by (simp add: phases_def)

lemma phases_Nil [simp]: "phases [] = []"
  by (simp add: phases_def)

lemma phases_single [simp]: "phases [(c, out)] = phase_of c"
  by (simp add: phases_def)

























section \<open>Running the concrete collaborators\<close>

lemma upd_env_id [simp]: "w\<lparr>env := env w\<rparr> = w"
  by simp

lemma demo_training_episodes:
  "\<exists>w'. training_episodes demo_ext m opt eps acc w = (Inr (acc @ replicate (length eps) 1), w')
        \<and> heap w' = (heap w)(params opt := heap w (params opt) + length eps)
        \<and> env w' = env w \<and> next_free w' = next_free w"
proof (induction eps arbitrary: acc w)
  case Nil
  show ?case by (simp add: py_return_def)
next
  case (Cons ep eps)
  let ?w1 = "w\<lparr>heap := (heap w)(params opt := Suc (heap w (params opt))),
        trace := trace w @ step_events ep (map (\<lambda>i. [0, 0, 0, 0, 0]) (fst (snd (snd ep)))) 1 acc\<rparr>"
  from Cons.IH[of "acc @ [1]" ?w1] obtain w' where
    "training_episodes demo_ext m opt eps (acc @ [1]) ?w1
       = (Inr ((acc @ [1]) @ replicate (length eps) 1), w')"
    "heap w' = (heap ?w1)(params opt := heap ?w1 (params opt) + length eps)"
    "env w' = env ?w1" "next_free w' = next_free ?w1"
    by blast
  then show ?case
    by (auto simp: py_bind_def demo_training_step replicate_app_Cons_same)
qed

lemma collate_all_replicate:
  "episodic_collate_fn s b = Inr ep \<Longrightarrow> collate_all s (replicate n b) None = (replicate n ep, None)"
  by (induction n) simp_all

lemma demo_pass:
  assumes "episodic_collate_fn (collate_fn l) (batch_of (collate_fn l)) = Inr ep"
  shows "iterate demo_ext l w =
     (Inr (replicate (sampler_n_tasks (batch_sampler l)) ep, None),
      w\<lparr>trace := trace w @ [(Iterate l, Returned (REpisodes (replicate (sampler_n_tasks (batch_sampler l)) ep)))]\<rparr>)"
  by (simp add: demo_iterate collate_all_replicate[OF assms])

lemma demo_training_epoch:
  assumes "episodic_collate_fn (collate_fn l) (batch_of (collate_fn l)) = Inr ep"
    and "sampler_n_tasks (batch_sampler l) \<noteq> 0"
  shows "\<exists>w'. training_epoch demo_ext m l opt w = (Inr 1, w')
        \<and> heap w' = (heap w)(params opt := heap w (params opt) + sampler_n_tasks (batch_sampler l))
        \<and> env w' = env w \<and> next_free w' = next_free w"
proof -
  let ?n = "sampler_n_tasks (batch_sampler l)"
  let ?w1 = "w\<lparr>trace := trace w @ [(Model_train, Returned RNone)]\<rparr>"
  let ?w2 = "?w1\<lparr>trace := trace ?w1 @ [(Iterate l, Returned (REpisodes (replicate ?n ep)))]\<rparr>"
  from demo_training_episodes[of m opt "replicate ?n ep" "[]" ?w2] obtain w3 where
    t: "training_episodes demo_ext m opt (replicate ?n ep) [] ?w2 = (Inr (replicate ?n 1), w3)"
    "heap w3 = (heap w)(params opt := heap w (params opt) + ?n)" "env w3 = env w"
    "next_free w3 = next_free w"
    by auto
  have "mean (replicate ?n (1::real)) = Inr 1"
    using assms(2) by (simp add: mean_def sum_list_replicate)
  then show ?thesis
    using t
    by (simp add: training_epoch_def py_bind_def py_return_def demo_model_call demo_pass[OF assms(1)]
          end_of_iteration_def mean_call_def extcall_def)
qed

lemma demo_collate:
  "l \<in> {train_loader, val_loader, test_loader} \<Longrightarrow>
     episodic_collate_fn (collate_fn l) (batch_of (collate_fn l)) = Inr demo_episode"
proof -
  have "episodic_collate_fn train_sampler (batch_of train_sampler) = Inr demo_episode"
    "episodic_collate_fn val_sampler (batch_of val_sampler) = Inr demo_episode"
    "episodic_collate_fn test_sampler (batch_of test_sampler) = Inr demo_episode"
    by code_simp+
  then show "l \<in> {train_loader, val_loader, test_loader} \<Longrightarrow>
     episodic_collate_fn (collate_fn l) (batch_of (collate_fn l)) = Inr demo_episode"
    by (auto simp: train_loader_def val_loader_def test_loader_def)
qed

lemma demo_correct:
  "length (filter (\<lambda>(s, l). argmax s = l)
     (zip (map (\<lambda>i. [0, 0, 0, 0, 0]) (concat (map (replicate 10) [0::nat, 1, 2, 3, 4])))
          (concat (map (replicate 10) [0::nat, 1, 2, 3, 4])))) = 10"
  by (simp add: argmax_def eval_nat_numeral)

lemma demo_evaluate_on_one_task:
  "\<exists>w'. evaluate_on_one_task demo_ext m demo_episode w = (Inr (10, 50), w')"
proof -
  have len: "length (concat (map (replicate 10) [0::nat, 1, 2, 3, 4])) = 50" by simp
  have fw: "forward demo_ext m q w1 =
      (Inr (map (\<lambda>i. [0, 0, 0, 0, 0]) q),
       w1\<lparr>trace := trace w1 @ [(Forward q, Returned (RScores (map (\<lambda>i. [0, 0, 0, 0, 0]) q)))]\<rparr>)"
    for q and w1 :: "(nat, unit, nat) world"
    by (simp add: forward_def extcall_def on_env_def demo_ext_def)
  show ?thesis
    unfolding evaluate_on_one_task_def demo_episode_def prod.case
    by (simp only: py_bind_def process_support_set_def demo_model_call fw py_return_def
          prod.case sum.case demo_correct len) simp
qed

lemma demo_evaluate_episodes:
  "\<exists>w'. evaluate_episodes demo_ext m (replicate n demo_episode) c t w
          = (Inr (c + n * 10, t + n * 50), w')"
proof (induction n arbitrary: c t w)
  case 0
  show ?case by (simp add: py_return_def)
next
  case (Suc n)
  from demo_evaluate_on_one_task[of m w] obtain w1 where
    a: "evaluate_on_one_task demo_ext m demo_episode w = (Inr (10, 50), w1)" ..
  from Suc.IH[of "c + 10" "t + 50" w1] a show ?case
    by (auto simp: py_bind_def algebra_simps)
qed

lemma demo_evaluate:
  assumes "l \<in> {train_loader, val_loader, test_loader}"
  shows "\<exists>w'. evaluate demo_ext m l w = (Inr (1 / 5), w')"
proof -
  let ?n = "sampler_n_tasks (batch_sampler l)"
  let ?w1 = "w\<lparr>trace := trace w @ [(Model_eval, Returned RNone)]\<rparr>"
  let ?w2 = "?w1\<lparr>trace := trace ?w1 @ [(Iterate l, Returned (REpisodes (replicate ?n demo_episode)))]\<rparr>"
  from notebook_tasks[OF assms] have n: "?n \<noteq> 0" .
  from demo_evaluate_episodes[of m ?n 0 0 ?w2] obtain w3 where
    e: "evaluate_episodes demo_ext m (replicate ?n demo_episode) 0 0 ?w2 = (Inr (?n * 10, ?n * 50), w3)"
    by auto
  from n have "real (?n * 10) / real (?n * 50) = 1 / 5" by simp
  with n e show ?thesis
    by (simp add: evaluate_def extcall_def py_bind_def py_return_def demo_model_call
          demo_pass[OF demo_collate[OF assms]] end_of_iteration_def)
qed

section \<open>The training loop, epoch by epoch\<close>

lemma scalars_append [simp]: "scalars (xs @ ys) = scalars xs @ scalars ys"
  by (simp add: scalars_def)

lemma scalars_Nil [simp]: "scalars [] = []"
  by (simp add: scalars_def)

lemma scalars_Cons:
  "scalars (ev # evs) =
     (case fst ev of Add_scalar tag v step \<Rightarrow> [(tag, v, step)] | _ \<Rightarrow> []) @ scalars evs"
  by (simp add: scalars_def)

lemma validation_accuracies_append [simp]:
  "validation_accuracies (xs @ ys) = validation_accuracies xs @ validation_accuracies ys"
  by (simp add: validation_accuracies_def)

lemma validation_accuracies_Nil [simp]: "validation_accuracies [] = []"
  by (simp add: validation_accuracies_def)

lemma validation_accuracies_Cons:
  "validation_accuracies (ev # evs) =
     (case ev of (Evaluate l, Returned (RReal a)) \<Rightarrow> if l = val_loader then [a] else [] | _ \<Rightarrow> [])
       @ validation_accuracies evs"
  by (simp add: validation_accuracies_def)

lemma snapshots_append [simp]: "snapshots (xs @ ys) = snapshots xs @ snapshots ys"
  by (simp add: snapshots_def)

lemma snapshots_Nil [simp]: "snapshots [] = []"
  by (simp add: snapshots_def)

lemma snapshots_Cons:
  "snapshots (ev # evs) =
     (case ev of (State_dict, Returned (RRef a)) \<Rightarrow> [a] | _ \<Rightarrow> []) @ snapshots evs"
  by (simp add: snapshots_def)

lemmas reader_Cons = scalars_Cons validation_accuracies_Cons snapshots_Cons

lemma step_events_quiet [simp]:
  "scalars (step_events episode scores loss acc) = []"
  "validation_accuracies (step_events episode scores loss acc) = []"
  "snapshots (step_events episode scores loss acc) = []"
  by (cases episode; simp add: step_events_def reader_Cons)+

lemma epoch_events_quiet [simp]:
  "scalars (epoch_events episodes results acc) = []"
  "validation_accuracies (epoch_events episodes results acc) = []"
  "snapshots (epoch_events episodes results acc) = []"
  by (induction episodes results acc rule: epoch_events.induct; simp)+

lemma training_epoch_quiet:
  assumes "training_epoch ext model loader opt w = (Inr avg, w')"
  shows "\<exists>evs. trace w' = trace w @ evs \<and> scalars evs = [] \<and> validation_accuracies evs = []
           \<and> snapshots evs = []"
proof -
  from training_epoch_Inr[OF assms] obtain episodes results where
    "trace w' = trace w @
             (Model_train, Returned RNone) # (Iterate loader, Returned (REpisodes episodes))
               # epoch_events episodes results [] @ [(Mean (map snd results), Returned (RReal avg))]"
    by blast
  then show ?thesis
    by (intro exI[of _ "(Model_train, Returned RNone) # (Iterate loader, Returned (REpisodes episodes))
               # epoch_events episodes results [] @ [(Mean (map snd results), Returned (RReal avg))]"])
       (simp add: reader_Cons)
qed

lemma epoch_body_summary:
  assumes "epoch_body ext model opt epoch u w = (Inr v, w')"
  shows "\<exists>avg acc evs w1 w2 w3.
           setup_call ext (Print_epoch epoch) w = (Inr (), w1)
         \<and> training_epoch ext model train_loader opt w1 = (Inr avg, w2)
         \<and> evaluate ext model val_loader w2 = (Inr acc, w3)
         \<and> trace w' = trace w @ evs
         \<and> scalars evs = [(''Train/loss'', avg, epoch), (''Val/acc'', acc, epoch)]
         \<and> validation_accuracies evs = [acc]
         \<and> snapshots evs = (if best_validation_accuracy u < acc then [model] else [])
         \<and> v = (if best_validation_accuracy u < acc
                 then u\<lparr>best_validation_accuracy := acc, best_state := model\<rparr> else u)
                  \<lparr>average_loss := Some avg, validation_accuracy := Some acc\<rparr>
         \<and> heap w' = heap w2 \<and> next_free w' = next_free w
         \<and> (\<forall>a. a \<noteq> params opt \<longrightarrow> heap w' a = heap w a)"
proof -
  from epoch_body_Inr[OF assms] obtain avg acc w1 w2 w3 where
    a: "setup_call ext (Print_epoch epoch) w = (Inr (), w1)" and
    b: "training_epoch ext model train_loader opt w1 = (Inr avg, w2)" and
    c: "evaluate ext model val_loader w2 = (Inr acc, w3)" and
    v: "v = (if best_validation_accuracy u < acc
                 then u\<lparr>best_validation_accuracy := acc, best_state := model\<rparr> else u)
                  \<lparr>average_loss := Some avg, validation_accuracy := Some acc\<rparr>" and
    t: "trace w' = trace w3 @
              (if best_validation_accuracy u < acc
               then [(State_dict, Returned (RRef model)), (Print_new_best, Returned RNone)] else [])
              @ [(Add_scalar ''Train/loss'' avg epoch, Returned RNone),
                 (Add_scalar ''Val/acc'' acc epoch, Returned RNone),
                 (Scheduler_step, Returned RNone)]" and
    h: "heap w' = heap w2" "next_free w' = next_free w"
    by blast
  from training_epoch_quiet[OF b] obtain evs2 where
    e2: "trace w2 = trace w1 @ evs2" "scalars evs2 = []" "validation_accuracies evs2 = []"
        "snapshots evs2 = []"
    by blast
  let ?evs = "(Print_epoch epoch, Returned RNone) # evs2 @ (Evaluate val_loader, Returned (RReal acc))
      # (if best_validation_accuracy u < acc
               then [(State_dict, Returned (RRef model)), (Print_new_best, Returned RNone)] else [])
              @ [(Add_scalar ''Train/loss'' avg epoch, Returned RNone),
                 (Add_scalar ''Val/acc'' acc epoch, Returned RNone),
                 (Scheduler_step, Returned RNone)]"
  have tr: "trace w' = trace w @ ?evs"
    using t e2(1) setup_call_Inr[OF a] evaluate_Inr[OF c] by simp
  have r: "scalars ?evs = [(''Train/loss'', avg, epoch), (''Val/acc'', acc, epoch)]"
    "validation_accuracies ?evs = [acc]"
    "snapshots ?evs = (if best_validation_accuracy u < acc then [model] else [])"
    using e2 by (simp_all add: reader_Cons)
  have hp: "\<forall>a. a \<noteq> params opt \<longrightarrow> heap w' a = heap w a"
    using training_epoch_heap[OF b] h(1) setup_call_Inr[OF a] by simp
  show ?thesis
    using a b c tr r v h hp
    by (intro exI[of _ avg] exI[of _ acc] exI[of _ ?evs] exI[of _ w1] exI[of _ w2] exI[of _ w3])
       (intro conjI; assumption)
qed

lemma py_bind_return_left [simp]: "py_bind (py_return a) f = f a"
  by (rule ext) (simp add: py_bind_def py_return_def)

lemma py_bind_return_right [simp]: "py_bind m py_return = m"
  by (rule ext) (simp add: py_bind_def py_return_def split: prod.splits sum.splits)

lemma py_bind_assoc: "py_bind (py_bind m f) g = py_bind m (\<lambda>a. py_bind (f a) g)"
  by (rule ext) (simp add: py_bind_def split: prod.splits sum.splits)

lemma training_loop_append:
  "training_loop ext model opt (xs @ ys) vars =
     py_bind (training_loop ext model opt xs vars) (training_loop ext model opt ys)"
proof (induction xs arbitrary: vars)
  case Nil
  show ?case by simp
next
  case (Cons x xs)
  have "training_loop ext model opt (xs @ ys) =
      (\<lambda>a. py_bind (training_loop ext model opt xs a) (training_loop ext model opt ys))"
    by (rule ext) (rule Cons.IH)
  then show ?case by (simp add: py_bind_assoc)
qed

lemma training_loop_Nil: "training_loop ext model opt [] = py_return"
  by (rule ext) simp

lemma training_loop_single: "training_loop ext model opt [n] = epoch_body ext model opt n"
  by (rule ext) (simp add: training_loop_Nil)

lemma train_Suc:
  "train ext model opt (Suc n) = py_bind (train ext model opt n) (epoch_body ext model opt n)"
  by (simp add: train_def training_loop_append py_bind_assoc training_loop_single
        del: training_loop.simps)

lemma train_Suc_Inr:
  "train ext model opt (Suc n) w = (Inr v, w') \<longleftrightarrow>
     (\<exists>u wu. train ext model opt n w = (Inr u, wu) \<and> epoch_body ext model opt n u wu = (Inr v, w'))"
  by (simp add: train_Suc py_bind_Inr)

lemma train_0_Inr:
  "train ext model opt 0 w = (Inr v, w') \<longleftrightarrow>
     v = \<lparr>best_state = model, best_validation_accuracy = 0, average_loss = None,
          validation_accuracy = None\<rparr>
   \<and> w' = w\<lparr>trace := trace w @ [(State_dict, Returned (RRef model))]\<rparr>"
  by (auto simp: train_def state_dict_def extcall_def py_bind_def py_return_def)

lemma train_earlier:
  "train ext model opt n w = (Inr v, w') \<Longrightarrow> k \<le> n \<Longrightarrow>
     \<exists>u wu. train ext model opt k w = (Inr u, wu)"
proof (induction n arbitrary: v w')
  case 0
  then show ?case by auto
next
  case (Suc n)
  show ?case
  proof (cases "k = Suc n")
    case True
    with Suc.prems(1) show ?thesis by blast
  next
    case False
    with Suc.prems(2) have "k \<le> n" by simp
    moreover from Suc.prems(1) obtain u wu where "train ext model opt n w = (Inr u, wu)"
      by (auto simp: train_Suc_Inr)
    ultimately show ?thesis using Suc.IH by blast
  qed
qed

lemma train_invariant:
  "train ext model opt n w = (Inr v, w') \<Longrightarrow>
     \<exists>evs. trace w' = trace w @ evs
       \<and> best_state v = model
       \<and> length (validation_accuracies evs) = n
       \<and> best_validation_accuracy v = Max (insert 0 (set (validation_accuracies evs)))
       \<and> set (snapshots evs) \<subseteq> {model}
       \<and> length (scalars evs) = 2 * n
       \<and> next_free w' = next_free w
       \<and> (\<forall>a. a \<noteq> params opt \<longrightarrow> heap w' a = heap w a)"
proof (induction n arbitrary: v w')
  case 0
  then show ?case
    by (intro exI[of _ "[(State_dict, Returned (RRef model))]"])
       (auto simp: train_0_Inr reader_Cons)
next
  case (Suc n)
  from Suc.prems obtain u wu where
    tn: "train ext model opt n w = (Inr u, wu)" and
    eb: "epoch_body ext model opt n u wu = (Inr v, w')"
    by (auto simp: train_Suc_Inr)
  from Suc.IH[OF tn] obtain evs where
    i: "trace wu = trace w @ evs" "best_state u = model" "length (validation_accuracies evs) = n"
       "best_validation_accuracy u = Max (insert 0 (set (validation_accuracies evs)))"
       "set (snapshots evs) \<subseteq> {model}" "length (scalars evs) = 2 * n"
       "next_free wu = next_free w" "\<forall>a. a \<noteq> params opt \<longrightarrow> heap wu a = heap w a"
    by blast
  from epoch_body_summary[OF eb] obtain avg acc evs' where
    s: "trace w' = trace wu @ evs'"
       "scalars evs' = [(''Train/loss'', avg, n), (''Val/acc'', acc, n)]"
       "validation_accuracies evs' = [acc]"
       "snapshots evs' = (if best_validation_accuracy u < acc then [model] else [])"
       "v = (if best_validation_accuracy u < acc
                 then u\<lparr>best_validation_accuracy := acc, best_state := model\<rparr> else u)
                  \<lparr>average_loss := Some avg, validation_accuracy := Some acc\<rparr>"
       "next_free w' = next_free wu" "\<forall>a. a \<noteq> params opt \<longrightarrow> heap w' a = heap wu a"
    by blast
  have best: "best_validation_accuracy v = max (best_validation_accuracy u) acc"
    using s(5) by (simp add: max_def)
  have "insert 0 (set (validation_accuracies (evs @ evs')))
      = insert acc (insert 0 (set (validation_accuracies evs)))"
    using s(3) by auto
  then have "Max (insert 0 (set (validation_accuracies (evs @ evs'))))
      = max acc (Max (insert 0 (set (validation_accuracies evs))))"
    by (simp only: Max_insert[OF finite_insert[THEN iffD2, OF finite_set] insert_not_empty])
  with best i(4) have mx: "best_validation_accuracy v
      = Max (insert 0 (set (validation_accuracies (evs @ evs'))))"
    by (simp add: max.commute)
  show ?case
    using i s mx
    by (intro exI[of _ "evs @ evs'"]) auto
qed

lemma seed_Inr:
  "seed src s w = (Inr u, w') \<Longrightarrow>
     trace w' = trace w @ [(Seed src s, Returned RNone)] \<and> heap w' = heap w
       \<and> next_free w' = next_free w"
  by (auto simp: seed_def extcall_Inr)

lemma set_cudnn_deterministic_Inr:
  "set_cudnn_deterministic b w = (Inr u, w') \<Longrightarrow>
     trace w' = trace w @ [(Cudnn_deterministic b, Returned RNone)] \<and> heap w' = heap w
       \<and> next_free w' = next_free w"
  by (auto simp: set_cudnn_deterministic_def extcall_Inr)

lemma set_cudnn_benchmark_Inr:
  "set_cudnn_benchmark b w = (Inr u, w') \<Longrightarrow>
     trace w' = trace w @ [(Cudnn_benchmark b, Returned RNone)] \<and> heap w' = heap w
       \<and> next_free w' = next_free w"
  by (auto simp: set_cudnn_benchmark_def extcall_Inr)

lemma resnet12_Inr:
  "resnet12 ext w = (Inr a, w') \<Longrightarrow>
     a = next_free w \<and> trace w' = trace w @ [(Resnet12, Returned (RRef a))]
       \<and> next_free w' = Suc (next_free w)"
  by (auto simp: resnet12_def extcall_Inr split: sum.splits prod.splits)

lemma prototypical_networks_Inr:
  "prototypical_networks ext backbone w = (Inr a, w') \<Longrightarrow>
     a = backbone \<and> trace w' = trace w @ [(PrototypicalNetworks backbone, Returned (RRef backbone))]
       \<and> heap w' = heap w \<and> next_free w' = next_free w"
  by (auto simp: prototypical_networks_def extcall_Inr py_bind_Inr py_return_Inr on_env_Inr)

lemma set_seeds_Inr:
  assumes "set_seeds w = (Inr u, w')"
  shows "trace w' = trace w @
           [(Seed Numpy random_seed, Returned RNone), (Seed Torch random_seed, Returned RNone),
            (Seed Python_random random_seed, Returned RNone),
            (Cudnn_deterministic True, Returned RNone), (Cudnn_benchmark False, Returned RNone)]
       \<and> next_free w' = next_free w"
proof -
  from assms obtain w1 w2 w3 w4 where
    "seed Numpy random_seed w = (Inr (), w1)" "seed Torch random_seed w1 = (Inr (), w2)"
    "seed Python_random random_seed w2 = (Inr (), w3)"
    "set_cudnn_deterministic True w3 = (Inr (), w4)" "set_cudnn_benchmark False w4 = (Inr (), w')"
    unfolding set_seeds_def by (auto simp: py_bind_Inr)
  then show ?thesis
    by (auto dest!: seed_Inr set_cudnn_deterministic_Inr set_cudnn_benchmark_Inr)
qed

lemma build_loaders_Inr:
  assumes "build_loaders ext w = (Inr u, w')"
  shows "trace w' = trace w @
           [(CUB Train True, Returned RNone), (CUB Val False, Returned RNone),
            (TaskSampler train_sampler, Returned RNone), (TaskSampler val_sampler, Returned RNone),
            (DataLoader train_loader, Returned RNone), (DataLoader val_loader, Returned RNone)]
       \<and> next_free w' = next_free w"
proof -
  from assms obtain w1 w2 w3 w4 w5 where
    "setup_call ext (CUB Train True) w = (Inr (), w1)"
    "setup_call ext (CUB Val False) w1 = (Inr (), w2)"
    "setup_call ext (TaskSampler train_sampler) w2 = (Inr (), w3)"
    "setup_call ext (TaskSampler val_sampler) w3 = (Inr (), w4)"
    "setup_call ext (DataLoader train_loader) w4 = (Inr (), w5)"
    "setup_call ext (DataLoader val_loader) w5 = (Inr (), w')"
    unfolding build_loaders_def by (auto simp: py_bind_Inr)
  then show ?thesis
    by (auto dest!: setup_call_Inr)
qed

lemma build_classifier_Inr:
  assumes "build_classifier ext w = (Inr model, w')"
  shows "trace w' = trace w @
           [(Resnet12, Returned (RRef model)), (PrototypicalNetworks model, Returned (RRef model)),
            (To_device DEVICE, Returned RNone)]
       \<and> model = next_free w \<and> next_free w' = Suc (next_free w)"
proof -
  from assms obtain a w1 b w2 where
    "resnet12 ext w = (Inr a, w1)" "prototypical_networks ext a w1 = (Inr b, w2)"
    "setup_call ext (To_device DEVICE) w2 = (Inr (), w')" "model = b"
    unfolding build_classifier_def to_device_def by (auto simp: py_bind_Inr py_return_Inr)
  then show ?thesis
    by (auto dest!: setup_call_Inr resnet12_Inr prototypical_networks_Inr)
qed

lemma build_training_helpers_Inr:
  assumes "build_training_helpers ext model w = (Inr opt, w')"
  shows "trace w' = trace w @
           [(SGD opt, Returned RNone),
            (MultiStepLR scheduler_milestones scheduler_gamma, Returned RNone),
            (SummaryWriter tb_logs_dir, Returned RNone)]
       \<and> params opt = model \<and> next_free w' = next_free w"
proof -
  from assms obtain w1 w2 where
    "setup_call ext (SGD opt) w = (Inr (), w1)"
    "setup_call ext (MultiStepLR scheduler_milestones scheduler_gamma) w1 = (Inr (), w2)"
    "setup_call ext (SummaryWriter tb_logs_dir) w2 = (Inr (), w')"
    "params opt = model"
    unfolding build_training_helpers_def Let_def by (auto simp: py_bind_Inr py_return_Inr)
  then show ?thesis
    by (auto dest!: setup_call_Inr)
qed

lemma prepare_Inr:
  assumes "prepare ext w = (Inr (model, opt), w')"
  shows "trace w' = trace w @
           [(Seed Numpy random_seed, Returned RNone), (Seed Torch random_seed, Returned RNone),
            (Seed Python_random random_seed, Returned RNone),
            (Cudnn_deterministic True, Returned RNone), (Cudnn_benchmark False, Returned RNone),
            (CUB Train True, Returned RNone), (CUB Val False, Returned RNone),
            (TaskSampler train_sampler, Returned RNone), (TaskSampler val_sampler, Returned RNone),
            (DataLoader train_loader, Returned RNone), (DataLoader val_loader, Returned RNone),
            (Resnet12, Returned (RRef model)), (PrototypicalNetworks model, Returned (RRef model)),
            (To_device DEVICE, Returned RNone), (SGD opt, Returned RNone),
            (MultiStepLR scheduler_milestones scheduler_gamma, Returned RNone),
            (SummaryWriter tb_logs_dir, Returned RNone)]
       \<and> params opt = model \<and> model = next_free w \<and> next_free w' = Suc (next_free w)"
proof -
  from assms obtain w1 w2 w3 where
    a: "set_seeds w = (Inr (), w1)" and b: "build_loaders ext w1 = (Inr (), w2)" and
    c: "build_classifier ext w2 = (Inr model, w3)" and
    d: "build_training_helpers ext model w3 = (Inr opt, w')"
    unfolding prepare_def by (auto simp: py_bind_Inr py_return_Inr)
  from set_seeds_Inr[OF a] build_loaders_Inr[OF b] build_classifier_Inr[OF c]
    build_training_helpers_Inr[OF d]
  show ?thesis by simp
qed

lemma finish_Inr:
  assumes "finish ext model vars w = (Inr accuracy, w')"
  shows "trace w' = trace w @
           [(Load_state_dict (best_state vars), Returned RNone),
            (CUB Test False, Returned RNone), (TaskSampler test_sampler, Returned RNone),
            (DataLoader test_loader, Returned RNone),
            (Evaluate test_loader, Returned (RReal accuracy)),
            (Print_accuracy (100 * accuracy), Returned RNone)]
       \<and> heap w' = (heap w)(model := heap w (best_state vars))
       \<and> 0 \<le> accuracy \<and> accuracy \<le> 1"
proof -
  from assms obtain w1 w2 w3 w4 where
    a: "load_state_dict model (best_state vars) w = (Inr (), w1)" and
    b: "setup_call ext (CUB Test False) w1 = (Inr (), w2)" and
    c: "setup_call ext (TaskSampler test_sampler) w2 = (Inr (), w3)" and
    d: "setup_call ext (DataLoader test_loader) w3 = (Inr (), w4)" and
    e: "test ext model w4 = (Inr accuracy, w')"
    unfolding finish_def restore_best_def build_test_loader_def
    by (auto simp: py_bind_Inr)
  from test_Inr[OF e] obtain w5 where
    f: "evaluate ext model test_loader w4 = (Inr accuracy, w5)"
       "trace w' = trace w4 @ [(Evaluate test_loader, Returned (RReal accuracy)),
                                  (Print_accuracy (100 * accuracy), Returned RNone)]"
       "heap w' = heap w4"
    by blast
  from load_state_dict_Inr[OF a] setup_call_Inr[OF b] setup_call_Inr[OF c] setup_call_Inr[OF d]
    f evaluate_Inr[OF f(1)]
  show ?thesis by simp
qed

lemma notebook_Inr:
  assumes "notebook ext w = (Inr (vars, accuracy), w')"
  shows "\<exists>model opt w1 w2.
           prepare ext w = (Inr (model, opt), w1)
         \<and> train ext model opt n_epochs w1 = (Inr vars, w2)
         \<and> finish ext model vars w2 = (Inr accuracy, w')"
  using assms unfolding notebook_def
  by (auto simp: py_bind_Inr py_return_Inr split: prod.splits)

text \<open>
  Claim C9. Let the training loop complete, and let \<open>e\<close> be one of its epochs. The loop
  reaches epoch \<open>e\<close> (variables \<open>u\<close>) and completes it (variables \<open>v\<close>, validation accuracy
  \<open>acc\<close>). After epoch \<open>e\<close>, \<open>e + 1\<close> validation accuracies have been observed and
  \<open>best_validation_accuracy\<close> is the maximum of 0 and all of them; it did not decrease during
  the epoch. If \<open>acc\<close> is strictly greater than the best before, the best becomes \<open>acc\<close> and
  \<^verbatim>\<open>state_dict()\<close> is called once; otherwise (also when \<open>acc\<close> equals the best) the best and
  \<open>best_state\<close> are unchanged and \<^verbatim>\<open>state_dict()\<close> is not called.
\<close>

theorem best_validation_accuracy_running_maximum:
  assumes "train ext model optimizer n_epochs w = (Inr vars, w')" and "e < n_epochs"
  shows "\<exists>u wu v wv acc.
           train ext model optimizer e w = (Inr u, wu)
         \<and> epoch_body ext model optimizer e u wu = (Inr v, wv)
         \<and> train ext model optimizer (Suc e) w = (Inr v, wv)
         \<and> validation_accuracy v = Some acc
         \<and> validation_accuracies (emitted w wv) = validation_accuracies (emitted w wu) @ [acc]
         \<and> length (validation_accuracies (emitted w wv)) = Suc e
         \<and> best_validation_accuracy v = Max (insert 0 (set (validation_accuracies (emitted w wv))))
         \<and> best_validation_accuracy u \<le> best_validation_accuracy v
         \<and> (if best_validation_accuracy u < acc
             then best_validation_accuracy v = acc \<and> snapshots (emitted wu wv) = [model]
             else best_validation_accuracy v = best_validation_accuracy u
                \<and> best_state v = best_state u \<and> snapshots (emitted wu wv) = [])"
proof -
  from assms(2) have "Suc e \<le> n_epochs" by simp
  from train_earlier[OF assms(1) this] obtain v wv where
    tv: "train ext model optimizer (Suc e) w = (Inr v, wv)" by blast
  then obtain u wu where
    tu: "train ext model optimizer e w = (Inr u, wu)" and
    eb: "epoch_body ext model optimizer e u wu = (Inr v, wv)"
    by (auto simp: train_Suc_Inr)
  from train_invariant[OF tu] obtain evs where
    i: "trace wu = trace w @ evs" "length (validation_accuracies evs) = e"
    by blast
  from train_invariant[OF tv] obtain evs_v where
    j: "trace wv = trace w @ evs_v" "length (validation_accuracies evs_v) = Suc e"
       "best_validation_accuracy v = Max (insert 0 (set (validation_accuracies evs_v)))"
    by blast
  from epoch_body_summary[OF eb] obtain avg acc evs' where
    s: "trace wv = trace wu @ evs'" "validation_accuracies evs' = [acc]"
       "snapshots evs' = (if best_validation_accuracy u < acc then [model] else [])"
       "v = (if best_validation_accuracy u < acc
                 then u\<lparr>best_validation_accuracy := acc, best_state := model\<rparr> else u)
                  \<lparr>average_loss := Some avg, validation_accuracy := Some acc\<rparr>"
    by blast
  have eu: "emitted w wu = evs" by (rule emitted_append[OF i(1)])
  have ev: "emitted w wv = evs_v" by (rule emitted_append[OF j(1)])
  have euv: "emitted wu wv = evs'" by (rule emitted_append[OF s(1)])
  from i(1) j(1) s(1) have "evs_v = evs @ evs'" by simp
  with s(2) have va: "validation_accuracies evs_v = validation_accuracies evs @ [acc]" by simp
  have vacc: "validation_accuracy v = Some acc" using s(4) by simp
  have le: "best_validation_accuracy u \<le> best_validation_accuracy v" using s(4) by simp
  have cond: "if best_validation_accuracy u < acc
             then best_validation_accuracy v = acc \<and> snapshots (emitted wu wv) = [model]
             else best_validation_accuracy v = best_validation_accuracy u
                \<and> best_state v = best_state u \<and> snapshots (emitted wu wv) = []"
    using s(3,4) by (simp add: euv)
  have va': "validation_accuracies (emitted w wv) = validation_accuracies (emitted w wu) @ [acc]"
    using va by (simp only: eu ev)
  have len: "length (validation_accuracies (emitted w wv)) = Suc e"
    using j(2) by (simp only: ev)
  have mx: "best_validation_accuracy v = Max (insert 0 (set (validation_accuracies (emitted w wv))))"
    using j(3) by (simp only: ev)
  from tu eb tv vacc va' len mx le cond show ?thesis by blast
qed

theorem best_validation_accuracy_running_maximum_witness:
  "(\<exists>vars w'. train demo_ext 0 tiny_optimizer n_epochs demo_world = (Inr vars, w'))
   \<and> (3::nat) < n_epochs
   \<and> (\<exists>u wu v wv acc.
           train demo_ext 0 tiny_optimizer 3 demo_world = (Inr u, wu)
         \<and> epoch_body demo_ext 0 tiny_optimizer 3 u wu = (Inr v, wv)
         \<and> train demo_ext 0 tiny_optimizer (Suc 3) demo_world = (Inr v, wv)
         \<and> validation_accuracy v = Some acc
         \<and> validation_accuracies (emitted demo_world wv)
             = validation_accuracies (emitted demo_world wu) @ [acc]
         \<and> length (validation_accuracies (emitted demo_world wv)) = Suc 3
         \<and> best_validation_accuracy v
             = Max (insert 0 (set (validation_accuracies (emitted demo_world wv))))
         \<and> best_validation_accuracy u \<le> best_validation_accuracy v
         \<and> (if best_validation_accuracy u < acc
             then best_validation_accuracy v = acc \<and> snapshots (emitted wu wv) = [0]
             else best_validation_accuracy v = best_validation_accuracy u
                \<and> best_state v = best_state u \<and> snapshots (emitted wu wv) = []))"
proof -
  from yieldsD[OF yields_train[OF demo_cooperative], of 0 tiny_optimizer n_epochs demo_world]
  obtain vars w' where t: "train demo_ext 0 tiny_optimizer n_epochs demo_world = (Inr vars, w')"
    by blast
  have e: "(3::nat) < n_epochs" by (simp add: n_epochs_def)
  from best_validation_accuracy_running_maximum[OF t e] t e show ?thesis by blast
qed

lemma train_scalars:
  "train ext model opt n w = (Inr v, w') \<Longrightarrow>
     \<exists>ls as. length ls = n \<and> length as = n
       \<and> scalars (emitted w w')
           = concat (map (\<lambda>e. [(''Train/loss'', ls ! e, e), (''Val/acc'', as ! e, e)]) [0..<n])
       \<and> (\<forall>e<n. \<exists>u wu x wx w1 w2 w3.
              train ext model opt e w = (Inr u, wu)
            \<and> epoch_body ext model opt e u wu = (Inr x, wx)
            \<and> setup_call ext (Print_epoch e) wu = (Inr (), w1)
            \<and> training_epoch ext model train_loader opt w1 = (Inr (ls ! e), w2)
            \<and> evaluate ext model val_loader w2 = (Inr (as ! e), w3)
            \<and> scalars (emitted wu wx) = [(''Train/loss'', ls ! e, e), (''Val/acc'', as ! e, e)])"
proof (induction n arbitrary: v w')
  case 0
  then show ?case
    by (auto simp: train_0_Inr emitted_def reader_Cons)
next
  case (Suc n)
  from Suc.prems obtain u wu where
    tn: "train ext model opt n w = (Inr u, wu)" and
    eb: "epoch_body ext model opt n u wu = (Inr v, w')"
    by (auto simp: train_Suc_Inr)
  from Suc.IH[OF tn] obtain ls as where
    i: "length ls = n" "length as = n"
       "scalars (emitted w wu)
           = concat (map (\<lambda>e. [(''Train/loss'', ls ! e, e), (''Val/acc'', as ! e, e)]) [0..<n])"
       "\<forall>e<n. \<exists>u wu x wx w1 w2 w3.
              train ext model opt e w = (Inr u, wu)
            \<and> epoch_body ext model opt e u wu = (Inr x, wx)
            \<and> setup_call ext (Print_epoch e) wu = (Inr (), w1)
            \<and> training_epoch ext model train_loader opt w1 = (Inr (ls ! e), w2)
            \<and> evaluate ext model val_loader w2 = (Inr (as ! e), w3)
            \<and> scalars (emitted wu wx) = [(''Train/loss'', ls ! e, e), (''Val/acc'', as ! e, e)]"
    by blast
  from train_invariant[OF tn] obtain evs where tu: "trace wu = trace w @ evs" by blast
  from epoch_body_summary[OF eb] obtain avg acc evs' w1 w2 w3 where
    s: "setup_call ext (Print_epoch n) wu = (Inr (), w1)"
       "training_epoch ext model train_loader opt w1 = (Inr avg, w2)"
       "evaluate ext model val_loader w2 = (Inr acc, w3)"
       "trace w' = trace wu @ evs'"
       "scalars evs' = [(''Train/loss'', avg, n), (''Val/acc'', acc, n)]"
    by blast
  let ?ls = "ls @ [avg]" and ?as = "as @ [acc]"
  have lsn: "?ls ! n = avg" using nth_append_length[of ls avg] i(1) by simp
  have asn: "?as ! n = acc" using nth_append_length[of as acc] i(2) by simp
  have eu: "emitted w wu = evs" by (rule emitted_append[OF tu])
  have e': "emitted wu w' = evs'" by (rule emitted_append[OF s(4)])
  have ew: "emitted w w' = evs @ evs'"
    by (rule emitted_append) (simp add: s(4) tu)
  have old: "map (\<lambda>e. [(''Train/loss'', ?ls ! e, e), (''Val/acc'', ?as ! e, e)]) [0..<n]
      = map (\<lambda>e. [(''Train/loss'', ls ! e, e), (''Val/acc'', as ! e, e)]) [0..<n]"
    using i(1,2) by (auto simp: nth_append)
  have sc: "scalars (emitted w w')
      = concat (map (\<lambda>e. [(''Train/loss'', ?ls ! e, e), (''Val/acc'', ?as ! e, e)]) [0..<Suc n])"
  proof -
    have la: "[(''Train/loss'', ?ls ! n, n), (''Val/acc'', ?as ! n, n)]
        = [(''Train/loss'', avg, n), (''Val/acc'', acc, n)]"
      by (simp only: lsn asn)
    have "concat (map (\<lambda>e. [(''Train/loss'', ?ls ! e, e), (''Val/acc'', ?as ! e, e)]) [0..<Suc n])
        = concat (map (\<lambda>e. [(''Train/loss'', ?ls ! e, e), (''Val/acc'', ?as ! e, e)]) [0..<n])
            @ [(''Train/loss'', ?ls ! n, n), (''Val/acc'', ?as ! n, n)]"
      by simp
    also have "\<dots> = concat (map (\<lambda>e. [(''Train/loss'', ls ! e, e), (''Val/acc'', as ! e, e)]) [0..<n])
            @ [(''Train/loss'', avg, n), (''Val/acc'', acc, n)]"
      by (simp only: old la)
    also have "\<dots> = scalars evs @ scalars evs'"
      using i(3) s(5) by (simp only: eu)
    finally show ?thesis by (simp only: ew scalars_append)
  qed
  have ep: "\<exists>u wu x wx w1 w2 w3.
              train ext model opt e w = (Inr u, wu)
            \<and> epoch_body ext model opt e u wu = (Inr x, wx)
            \<and> setup_call ext (Print_epoch e) wu = (Inr (), w1)
            \<and> training_epoch ext model train_loader opt w1 = (Inr (?ls ! e), w2)
            \<and> evaluate ext model val_loader w2 = (Inr (?as ! e), w3)
            \<and> scalars (emitted wu wx) = [(''Train/loss'', ?ls ! e, e), (''Val/acc'', ?as ! e, e)]"
    if "e < Suc n" for e
  proof (cases "e < n")
    case True
    with i(1,2) have "?ls ! e = ls ! e" "?as ! e = as ! e" by (simp_all add: nth_append)
    with i(4) True show ?thesis by simp
  next
    case False
    with that have en: "e = n" by simp
    from tn eb s e' lsn asn show ?thesis unfolding en by auto
  qed
  show ?case
    using i(1,2) sc ep
    by (intro exI[of _ ?ls] exI[of _ ?as]) simp
qed

text \<open>
  Claim C7. Let the notebook complete. The cells before and after the training loop send no
  scalar to the writer. The scalars the run sends are, for the epochs \<open>0, .., n_epochs - 1\<close>
  in order, the two triples \<open>(''Train/loss'', l, e)\<close> and \<open>(''Val/acc'', a, e)\<close>, where \<open>l\<close> is
  what \<open>training_epoch\<close> returned in epoch \<open>e\<close> and \<open>a\<close> what \<open>evaluate\<close> returned on the
  validation loader in epoch \<open>e\<close>; these two are all the scalars sent during epoch \<open>e\<close>.
\<close>

theorem logged_scalars:
  assumes "notebook ext w = (Inr (vars, accuracy), w')"
  shows "n_epochs = 200 \<and> (\<exists>model optimizer w1 w2 ls as.
           prepare ext w = (Inr (model, optimizer), w1)
         \<and> train ext model optimizer n_epochs w1 = (Inr vars, w2)
         \<and> finish ext model vars w2 = (Inr accuracy, w')
         \<and> scalars (emitted w w1) = [] \<and> scalars (emitted w2 w') = []
         \<and> length ls = n_epochs \<and> length as = n_epochs
         \<and> scalars (emitted w w')
             = concat (map (\<lambda>e. [(''Train/loss'', ls ! e, e), (''Val/acc'', as ! e, e)]) [0..<n_epochs])
         \<and> (\<forall>e<n_epochs. \<exists>u wu x wx v1 v2 v3.
                train ext model optimizer e w1 = (Inr u, wu)
              \<and> epoch_body ext model optimizer e u wu = (Inr x, wx)
              \<and> setup_call ext (Print_epoch e) wu = (Inr (), v1)
              \<and> training_epoch ext model train_loader optimizer v1 = (Inr (ls ! e), v2)
              \<and> evaluate ext model val_loader v2 = (Inr (as ! e), v3)
              \<and> scalars (emitted wu wx) = [(''Train/loss'', ls ! e, e), (''Val/acc'', as ! e, e)]))"
proof -
  from notebook_Inr[OF assms] obtain model opt w1 w2 where
    p: "prepare ext w = (Inr (model, opt), w1)" and
    t: "train ext model opt n_epochs w1 = (Inr vars, w2)" and
    f: "finish ext model vars w2 = (Inr accuracy, w')"
    by blast
  note pt = prepare_Inr[OF p, THEN conjunct1]
  note ft = finish_Inr[OF f, THEN conjunct1]
  from train_invariant[OF t] obtain evs where tt: "trace w2 = trace w1 @ evs" by blast
  have s1: "scalars (emitted w w1) = []"
    by (simp add: emitted_append[OF pt] reader_Cons)
  have s3: "scalars (emitted w2 w') = []"
    by (simp add: emitted_append[OF ft] reader_Cons)
  have e2: "emitted w1 w2 = evs" by (rule emitted_append[OF tt])
  have "trace w' = trace w @ (emitted w w1 @ evs @ emitted w2 w')"
    by (simp add: emitted_append[OF pt] emitted_append[OF ft] ft tt pt)
  from emitted_append[OF this] s1 s3 e2
  have all: "scalars (emitted w w') = scalars (emitted w1 w2)" by simp
  from train_scalars[OF t] obtain ls as where
    l: "length ls = n_epochs" "length as = n_epochs"
       "scalars (emitted w1 w2)
           = concat (map (\<lambda>e. [(''Train/loss'', ls ! e, e), (''Val/acc'', as ! e, e)]) [0..<n_epochs])"
       "\<forall>e<n_epochs. \<exists>u wu x wx v1 v2 v3.
                train ext model opt e w1 = (Inr u, wu)
              \<and> epoch_body ext model opt e u wu = (Inr x, wx)
              \<and> setup_call ext (Print_epoch e) wu = (Inr (), v1)
              \<and> training_epoch ext model train_loader opt v1 = (Inr (ls ! e), v2)
              \<and> evaluate ext model val_loader v2 = (Inr (as ! e), v3)
              \<and> scalars (emitted wu wx) = [(''Train/loss'', ls ! e, e), (''Val/acc'', as ! e, e)]"
    by blast
  from l(3) all have sc: "scalars (emitted w w')
      = concat (map (\<lambda>e. [(''Train/loss'', ls ! e, e), (''Val/acc'', as ! e, e)]) [0..<n_epochs])"
    by simp
  have "n_epochs = 200" by (simp add: n_epochs_def)
  moreover from p t f s1 s3 l(1,2) sc l(4)
  have "\<exists>model optimizer w1 w2 ls as.
           prepare ext w = (Inr (model, optimizer), w1)
         \<and> train ext model optimizer n_epochs w1 = (Inr vars, w2)
         \<and> finish ext model vars w2 = (Inr accuracy, w')
         \<and> scalars (emitted w w1) = [] \<and> scalars (emitted w2 w') = []
         \<and> length ls = n_epochs \<and> length as = n_epochs
         \<and> scalars (emitted w w')
             = concat (map (\<lambda>e. [(''Train/loss'', ls ! e, e), (''Val/acc'', as ! e, e)]) [0..<n_epochs])
         \<and> (\<forall>e<n_epochs. \<exists>u wu x wx v1 v2 v3.
                train ext model optimizer e w1 = (Inr u, wu)
              \<and> epoch_body ext model optimizer e u wu = (Inr x, wx)
              \<and> setup_call ext (Print_epoch e) wu = (Inr (), v1)
              \<and> training_epoch ext model train_loader optimizer v1 = (Inr (ls ! e), v2)
              \<and> evaluate ext model val_loader v2 = (Inr (as ! e), v3)
              \<and> scalars (emitted wu wx) = [(''Train/loss'', ls ! e, e), (''Val/acc'', as ! e, e)])"
    by blast
  ultimately show ?thesis by (rule conjI)
qed

theorem logged_scalars_witness:
  "\<exists>vars accuracy w'.
     notebook demo_ext demo_world = (Inr (vars, accuracy), w')
   \<and> (\<exists>model optimizer w1 w2 ls as.
           prepare demo_ext demo_world = (Inr (model, optimizer), w1)
         \<and> train demo_ext model optimizer n_epochs w1 = (Inr vars, w2)
         \<and> finish demo_ext model vars w2 = (Inr accuracy, w')
         \<and> scalars (emitted demo_world w1) = [] \<and> scalars (emitted w2 w') = []
         \<and> length ls = n_epochs \<and> length as = n_epochs
         \<and> scalars (emitted demo_world w')
             = concat (map (\<lambda>e. [(''Train/loss'', ls ! e, e), (''Val/acc'', as ! e, e)]) [0..<n_epochs])
         \<and> (\<forall>e<n_epochs. \<exists>u wu x wx v1 v2 v3.
                train demo_ext model optimizer e w1 = (Inr u, wu)
              \<and> epoch_body demo_ext model optimizer e u wu = (Inr x, wx)
              \<and> setup_call demo_ext (Print_epoch e) wu = (Inr (), v1)
              \<and> training_epoch demo_ext model train_loader optimizer v1 = (Inr (ls ! e), v2)
              \<and> evaluate demo_ext model val_loader v2 = (Inr (as ! e), v3)
              \<and> scalars (emitted wu wx) = [(''Train/loss'', ls ! e, e), (''Val/acc'', as ! e, e)]))"
proof -
  from yieldsD[OF yields_notebook[OF demo_cooperative], of demo_world]
  obtain vars accuracy w' where n: "notebook demo_ext demo_world = (Inr (vars, accuracy), w')"
    by (metis surj_pair)
  from logged_scalars[OF n, THEN conjunct2] n show ?thesis by blast
qed

section \<open>The state that is restored\<close>

lemma train_best_state:
  assumes "train ext model opt n w = (Inr vars, w')"
  shows "best_state vars = model"
  using train_invariant[OF assms] by blast

lemma notebook_restore:
  assumes "notebook ext w = (Inr (vars, accuracy), w')"
  shows "\<exists>model opt w1 w2.
           prepare ext w = (Inr (model, opt), w1)
         \<and> train ext model opt n_epochs w1 = (Inr vars, w2)
         \<and> best_state vars = model \<and> heap w' = heap w2"
proof -
  from notebook_Inr[OF assms] obtain model opt w1 w2 where
    p: "prepare ext w = (Inr (model, opt), w1)" and
    t: "train ext model opt n_epochs w1 = (Inr vars, w2)" and
    f: "finish ext model vars w2 = (Inr accuracy, w')"
    by blast
  from train_best_state[OF t] have b: "best_state vars = model" .
  from finish_Inr[OF f] b have "heap w' = heap w2" by simp
  with p t b show ?thesis by blast
qed

lemma demo_epoch_body:
  "\<exists>w'. epoch_body demo_ext m opt e u w =
          (Inr ((if best_validation_accuracy u < 1 / 5
                 then u\<lparr>best_validation_accuracy := 1 / 5, best_state := m\<rparr> else u)
                  \<lparr>average_loss := Some 1, validation_accuracy := Some (1 / 5)\<rparr>), w')
        \<and> heap w' = (heap w)(params opt := heap w (params opt) + n_tasks_per_epoch)
        \<and> validation_accuracies (emitted w w') = [1 / 5]
        \<and> snapshots (emitted w w') = (if best_validation_accuracy u < 1 / 5 then [m] else [])"
proof -
  have tl: "train_loader \<in> {train_loader, val_loader, test_loader}"
    and vl: "val_loader \<in> {train_loader, val_loader, test_loader}" by simp_all
  from yieldsD[OF yields_epoch_body[OF demo_cooperative], of m opt e u w] obtain v w' where
    eb: "epoch_body demo_ext m opt e u w = (Inr v, w')" by blast
  from epoch_body_summary[OF eb] obtain avg acc evs w1 w2 w3 where
    s: "setup_call demo_ext (Print_epoch e) w = (Inr (), w1)"
       "training_epoch demo_ext m train_loader opt w1 = (Inr avg, w2)"
       "evaluate demo_ext m val_loader w2 = (Inr acc, w3)"
       "trace w' = trace w @ evs"
       "validation_accuracies evs = [acc]"
       "snapshots evs = (if best_validation_accuracy u < acc then [m] else [])"
       "v = (if best_validation_accuracy u < acc
                 then u\<lparr>best_validation_accuracy := acc, best_state := m\<rparr> else u)
                  \<lparr>average_loss := Some avg, validation_accuracy := Some acc\<rparr>"
       "heap w' = heap w2"
    by blast
  from demo_training_epoch[OF demo_collate[OF tl] notebook_tasks[OF tl], of m opt w1] s(2)
  have avg: "avg = 1"
    and h2: "heap w2 = (heap w1)(params opt := heap w1 (params opt) + sampler_n_tasks (batch_sampler train_loader))"
    by auto
  from demo_evaluate[OF vl, of m w2] s(3) have acc: "acc = 1 / 5" by auto
  from setup_call_Inr[OF s(1)] have h1: "heap w1 = heap w" by simp
  have nt: "sampler_n_tasks (batch_sampler train_loader) = n_tasks_per_epoch"
    by (simp add: train_loader_def train_sampler_def)
  have em: "emitted w w' = evs" by (rule emitted_append[OF s(4)])
  show ?thesis
    using eb s(5,6,7,8) h2
    by (intro exI[of _ w']) (simp add: avg acc h1 nt em)
qed

lemma demo_train:
  "\<exists>v w'. train demo_ext m opt (Suc n) w = (Inr v, w')
        \<and> heap w' = (heap w)(params opt := heap w (params opt) + Suc n * n_tasks_per_epoch)
        \<and> validation_accuracies (emitted w w') = replicate (Suc n) (1 / 5)
        \<and> snapshots (emitted w w') = [m, m]
        \<and> best_validation_accuracy v = 1 / 5 \<and> best_state v = m"
proof (induction n)
  case 0
  let ?v0 = "\<lparr>best_state = m, best_validation_accuracy = 0, average_loss = None,
          validation_accuracy = None\<rparr>"
  let ?w0 = "w\<lparr>trace := trace w @ [(State_dict, Returned (RRef m))]\<rparr>"
  have t0: "train demo_ext m opt 0 w = (Inr ?v0, ?w0)"
    by (simp add: train_0_Inr)
  from demo_epoch_body[of m opt 0 ?v0 ?w0] obtain w' where
    eb: "epoch_body demo_ext m opt 0 ?v0 ?w0 =
          (Inr ((if best_validation_accuracy ?v0 < 1 / 5
                 then ?v0\<lparr>best_validation_accuracy := 1 / 5, best_state := m\<rparr> else ?v0)
                  \<lparr>average_loss := Some 1, validation_accuracy := Some (1 / 5)\<rparr>), w')"
        "heap w' = (heap ?w0)(params opt := heap ?w0 (params opt) + n_tasks_per_epoch)"
        "validation_accuracies (emitted ?w0 w') = [1 / 5]"
        "snapshots (emitted ?w0 w') = (if best_validation_accuracy ?v0 < 1 / 5 then [m] else [])"
    by blast
  from epoch_body_summary[OF eb(1)] obtain evs where tr: "trace w' = trace ?w0 @ evs" by blast
  have e0: "emitted ?w0 w' = evs" by (rule emitted_append[OF tr])
  have "trace w' = trace w @ ((State_dict, Returned (RRef m)) # evs)" using tr by simp
  from emitted_append[OF this] have ew: "emitted w w' = (State_dict, Returned (RRef m)) # evs" .
  have t1: "train demo_ext m opt (Suc 0) w =
          (Inr ((if best_validation_accuracy ?v0 < 1 / 5
                 then ?v0\<lparr>best_validation_accuracy := 1 / 5, best_state := m\<rparr> else ?v0)
                  \<lparr>average_loss := Some 1, validation_accuracy := Some (1 / 5)\<rparr>), w')"
    using t0 eb(1) by (simp only: train_Suc_Inr) blast
  show ?case
    using t1 eb(2,3,4)
    by (intro exI[of _ "(if best_validation_accuracy ?v0 < 1 / 5
                 then ?v0\<lparr>best_validation_accuracy := 1 / 5, best_state := m\<rparr> else ?v0)
                  \<lparr>average_loss := Some 1, validation_accuracy := Some (1 / 5)\<rparr>"] exI[of _ w'])
       (simp add: ew e0 reader_Cons)
next
  case (Suc n)
  then obtain u wu where
    i: "train demo_ext m opt (Suc n) w = (Inr u, wu)"
       "heap wu = (heap w)(params opt := heap w (params opt) + Suc n * n_tasks_per_epoch)"
       "validation_accuracies (emitted w wu) = replicate (Suc n) (1 / 5)"
       "snapshots (emitted w wu) = [m, m]"
       "best_validation_accuracy u = 1 / 5" "best_state u = m"
    by blast
  from demo_epoch_body[of m opt "Suc n" u wu] obtain w' where
    eb: "epoch_body demo_ext m opt (Suc n) u wu =
          (Inr ((if best_validation_accuracy u < 1 / 5
                 then u\<lparr>best_validation_accuracy := 1 / 5, best_state := m\<rparr> else u)
                  \<lparr>average_loss := Some 1, validation_accuracy := Some (1 / 5)\<rparr>), w')"
        "heap w' = (heap wu)(params opt := heap wu (params opt) + n_tasks_per_epoch)"
        "validation_accuracies (emitted wu w') = [1 / 5]"
        "snapshots (emitted wu w') = (if best_validation_accuracy u < 1 / 5 then [m] else [])"
    by blast
  from train_invariant[OF i(1)] obtain evs where tu: "trace wu = trace w @ evs" by blast
  from epoch_body_summary[OF eb(1)] obtain evs' where tr: "trace w' = trace wu @ evs'" by blast
  have eu: "emitted w wu = evs" by (rule emitted_append[OF tu])
  have e': "emitted wu w' = evs'" by (rule emitted_append[OF tr])
  have "trace w' = trace w @ (evs @ evs')" using tu tr by simp
  from emitted_append[OF this] have ew: "emitted w w' = emitted w wu @ emitted wu w'"
    by (simp add: eu e')
  let ?v = "(if best_validation_accuracy u < 1 / 5
                 then u\<lparr>best_validation_accuracy := 1 / 5, best_state := m\<rparr> else u)
                  \<lparr>average_loss := Some 1, validation_accuracy := Some (1 / 5)\<rparr>"
  have t: "train demo_ext m opt (Suc (Suc n)) w = (Inr ?v, w')"
    using i(1) eb(1) by (simp only: train_Suc_Inr[of _ _ _ "Suc n"]) blast
  have va: "validation_accuracies (emitted w w') = replicate (Suc (Suc n)) (1 / 5)"
    using i(3) eb(3) by (simp only: ew validation_accuracies_append) (simp add: replicate_append_same)
  have sn: "snapshots (emitted w w') = [m, m]"
    using i(4,5) eb(4) by (simp add: ew)
  have hp: "heap w' = (heap w)(params opt := heap w (params opt) + Suc (Suc n) * n_tasks_per_epoch)"
    using i(2) eb(2) by (simp add: algebra_simps)
  from t va sn hp i(5,6) show ?case
    by (intro exI[of _ ?v] exI[of _ w']) simp
qed


lemma demo_resnet12:
  "resnet12 demo_ext w =
     (Inr (next_free w),
      w\<lparr>heap := (heap w)(next_free w := 0), next_free := Suc (next_free w),
        trace := trace w @ [(Resnet12, Returned (RRef (next_free w)))]\<rparr>)"
  by (simp add: resnet12_def extcall_def demo_ext_def)

lemma demo_prototypical_networks:
  "prototypical_networks demo_ext a w =
     (Inr a, w\<lparr>trace := trace w @ [(PrototypicalNetworks a, Returned (RRef a))]\<rparr>)"
  by (simp add: prototypical_networks_def extcall_def py_bind_def py_return_def on_env_def
        demo_ext_def)

lemma demo_prepare:
  "fst (prepare demo_ext demo_world)
     = Inr (0, \<lparr>params = 0, lr = learning_rate, momentum = 9 / 10, weight_decay = 5 / 10000\<rparr>)
   \<and> heap (snd (prepare demo_ext demo_world)) 0 = 0"
  by (simp add: prepare_def set_seeds_def build_loaders_def build_classifier_def
        build_training_helpers_def Let_def seed_def set_cudnn_deterministic_def
        set_cudnn_benchmark_def demo_resnet12 demo_prototypical_networks to_device_def
        py_bind_def py_return_def extcall_def demo_setup_call demo_world_def)

text \<open>
  Claim C1, at a concrete run. With the concrete collaborators every optimizer step adds one
  to the parameters, an epoch has 500 steps, and every validation pass has the accuracy 1/5.
  The parameters are 0 before training and 500 after the first epoch. The first epoch is the
  only one whose accuracy exceeds the best so far, so \<^verbatim>\<open>state_dict()\<close> is called twice, before
  the loop and in the first epoch, and both calls return the classifier's own storage. The
  notebook completes, and after it has loaded \<open>best_state\<close> the parameters are 100000, the
  state after the last of the 200 epochs, not the 500 of the best epoch.
\<close>

theorem restored_state_is_the_last_state:
  "\<exists>optimizer w1 u wu vars w2 accuracy w'.
       prepare demo_ext demo_world = (Inr (0, optimizer), w1) \<and> heap w1 0 = 0
     \<and> train demo_ext 0 optimizer 1 w1 = (Inr u, wu) \<and> heap wu 0 = 500
     \<and> train demo_ext 0 optimizer n_epochs w1 = (Inr vars, w2)
     \<and> validation_accuracies (emitted w1 w2) = replicate 200 (1 / 5)
     \<and> snapshots (emitted w1 w2) = [0, 0]
     \<and> best_validation_accuracy vars = 1 / 5 \<and> best_state vars = 0
     \<and> notebook demo_ext demo_world = (Inr (vars, accuracy), w')
     \<and> heap w' 0 = 100000"
proof -
  let ?opt = "\<lparr>params = 0, lr = learning_rate, momentum = 9 / 10, weight_decay = 5 / 10000\<rparr>"
  let ?w1 = "snd (prepare demo_ext demo_world)"
  have p: "prepare demo_ext demo_world = (Inr (0, ?opt), ?w1)"
    using demo_prepare by (metis prod.collapse)
  have h1: "heap ?w1 0 = 0" using demo_prepare by simp
  from demo_train[of 0 ?opt 0 ?w1] obtain u wu where
    t1: "train demo_ext 0 ?opt (Suc 0) ?w1 = (Inr u, wu)"
        "heap wu = (heap ?w1)(params ?opt := heap ?w1 (params ?opt) + Suc 0 * n_tasks_per_epoch)"
    by blast
  from t1(2) h1 have hu: "heap wu 0 = 500" by (simp add: n_tasks_per_epoch_def)
  from demo_train[of 0 ?opt 199 ?w1] obtain v w2 where
    t: "train demo_ext 0 ?opt (Suc 199) ?w1 = (Inr v, w2)"
       "heap w2 = (heap ?w1)(params ?opt := heap ?w1 (params ?opt) + Suc 199 * n_tasks_per_epoch)"
       "validation_accuracies (emitted ?w1 w2) = replicate (Suc 199) (1 / 5)"
       "snapshots (emitted ?w1 w2) = [0, 0]"
       "best_validation_accuracy v = 1 / 5" "best_state v = 0"
    by blast
  have n: "n_epochs = Suc 199" by (simp add: n_epochs_def)
  have s200: "Suc 199 = 200" by simp
  from t(2) h1 have h2: "heap w2 0 = 100000" by (simp add: n_tasks_per_epoch_def)
  from yieldsD[OF yields_notebook[OF demo_cooperative], of demo_world]
  obtain vars accuracy w' where nb: "notebook demo_ext demo_world = (Inr (vars, accuracy), w')"
    by (metis surj_pair)
  from notebook_restore[OF nb] p t(1) have same: "vars = v" "heap w' = heap w2"
    by (auto simp: n)
  have t1': "train demo_ext 0 ?opt 1 ?w1 = (Inr u, wu)" using t1(1) by simp
  have tn: "train demo_ext 0 ?opt n_epochs ?w1 = (Inr vars, w2)" using t(1) same(1) by (simp only: n)
  have va: "validation_accuracies (emitted ?w1 w2) = replicate 200 (1 / 5)"
    using t(3) by (simp only: s200)
  have hw: "heap w' 0 = 100000" using same(2) h2 by simp
  from p h1 t1' hu tn va t(4,5,6) same(1) nb hw show ?thesis by blast
qed

section \<open>Seeding\<close>









end
